theory Spec2Isabelle
  imports Complex_Main "HOL-Library.Sublist" "HOL-Library.Product_Lexorder" "HOL-Library.Multiset"
begin

section \<open>Timetable construction and constraint validation\<close>

text \<open>
  A shallow embedding of the timetable engine: the rule engine \<open>ConstraintSolver\<close>,
  the generator \<open>AITimetableGenerator\<close> with its fallback path, and the plain
  \<open>TimetableGenerator\<close>.

  Conventions of the embedding.
  \<^item> A JavaScript string is a \<open>string\<close> (a list of 8-bit characters); the source's
    strings are UTF-16, so characters beyond U+00FF are outside the model.
  \<^item> A JavaScript number that the code counts or adds is an \<open>int\<close>: integers are exact
    in the model, as they are in the source below \<open>2^53\<close>. A number that \<open>parseInt\<close>
    returns is a \<open>number\<close>: \<open>NaN\<close>, an infinity, or the integer value of a double.
  \<^item> \<open>undefined\<close> in an optional field is \<open>None\<close>.
  \<^item> Storage is unbounded: an array of any valid length can be built.
  \<^item> The mutable fields of a generator object are threaded through as a record.
\<close>

subsection \<open>String primitives of the host language\<close>

text \<open>\<open>String.prototype.split(sep)\<close> for a one-character separator: the pieces between
  the occurrences of \<open>sep\<close>, always at least one piece.\<close>

fun split_acc :: "char \<Rightarrow> string \<Rightarrow> string \<Rightarrow> string list" where
  "split_acc sep acc [] = [rev acc]"
| "split_acc sep acc (c # cs) =
     (if c = sep then rev acc # split_acc sep [] cs else split_acc sep (c # acc) cs)"

definition str_split :: "char \<Rightarrow> string \<Rightarrow> string list" where
  "str_split sep s = split_acc sep [] s"

text \<open>\<open>s.replace(':', '')\<close> with a string pattern removes the first occurrence only.\<close>

definition replace_colon :: "string \<Rightarrow> string" where
  "replace_colon s = remove1 (CHR '':'') s"

text \<open>\<open>String.prototype.includes\<close>: the argument occurs as a contiguous substring.\<close>

fun str_includes :: "string \<Rightarrow> string \<Rightarrow> bool" where
  "str_includes [] t = (t = [])"
| "str_includes (c # cs) t = (prefix t (c # cs) \<or> str_includes cs t)"

text \<open>\<open>Array.prototype.indexOf\<close>: the first position holding the value, or \<open>-1\<close>.\<close>

fun indexOf :: "'a list \<Rightarrow> 'a \<Rightarrow> int" where
  "indexOf [] x = -1"
| "indexOf (y # ys) x =
     (if y = x then 0 else (let i = indexOf ys x in if i = -1 then -1 else i + 1))"

text \<open>\<open>Array.prototype.findIndex\<close>, with \<open>None\<close> for the result \<open>-1\<close>.\<close>

fun findIndex :: "('a \<Rightarrow> bool) \<Rightarrow> 'a list \<Rightarrow> nat option" where
  "findIndex P [] = None"
| "findIndex P (x # xs) =
     (if P x then Some 0 else map_option Suc (findIndex P xs))"

text \<open>\<open>xs.splice(i, 1)\<close> removes position \<open>i\<close>; \<open>xs.splice(i, 0, x)\<close> inserts \<open>x\<close>
  at position \<open>i\<close>.\<close>

definition splice_out :: "nat \<Rightarrow> 'a list \<Rightarrow> 'a list" where
  "splice_out i xs = take i xs @ drop (Suc i) xs"

definition splice_in :: "nat \<Rightarrow> 'a \<Rightarrow> 'a list \<Rightarrow> 'a list" where
  "splice_in i x xs = take i xs @ x # drop i xs"

subsection \<open>parseInt\<close>

text \<open>The white space that \<open>parseInt\<close> skips, as far as it exists among 8-bit
  characters: TAB, LF, VT, FF, CR, SP and NBSP.\<close>

definition is_ws :: "char \<Rightarrow> bool" where
  "is_ws c = ((of_char c :: nat) \<in> {9, 10, 11, 12, 13, 32, 160})"

definition is_digit :: "char \<Rightarrow> bool" where
  "is_digit c = (48 \<le> (of_char c :: nat) \<and> (of_char c :: nat) \<le> 57)"

definition digit_val :: "char \<Rightarrow> nat" where
  "digit_val c = of_char c - 48"

definition digits_val :: "string \<Rightarrow> nat" where
  "digits_val ds = foldl (\<lambda>acc c. acc * 10 + digit_val c) 0 ds"

text \<open>The value of a hexadecimal digit, for \<open>parseInt\<close> without a radix.\<close>

definition hex_val :: "char \<Rightarrow> nat option" where
  "hex_val c =
     (let n = (of_char c :: nat) in
      if 48 \<le> n \<and> n \<le> 57 then Some (n - 48)
      else if 97 \<le> n \<and> n \<le> 102 then Some (n - 87)
      else if 65 \<le> n \<and> n \<le> 70 then Some (n - 55)
      else None)"

definition hexs_val :: "string \<Rightarrow> nat" where
  "hexs_val ds =
     foldl (\<lambda>acc c. acc * 16 + (case hex_val c of Some v \<Rightarrow> v | None \<Rightarrow> 0)) 0 ds"

text \<open>Leading white space is skipped, then an optional sign is read.\<close>

definition strip_sign :: "string \<Rightarrow> bool \<times> string" where
  "strip_sign s =
     (case dropWhile is_ws s of
        [] \<Rightarrow> (False, [])
      | c # cs \<Rightarrow>
          if c = CHR ''-'' then (True, cs)
          else if c = CHR ''+'' then (False, cs)
          else (False, c # cs))"

definition signed :: "bool \<Rightarrow> nat \<Rightarrow> int" where
  "signed neg n = (if neg then - int n else int n)"

text \<open>The results of \<open>parseInt\<close> are doubles: \<open>NaN\<close>, the two infinities, and the
  doubles with an integer value, \<open>Num v\<close> for the value \<open>v\<close>. The code only compares these
  numbers, and \<open>-0\<close> compares like \<open>0\<close>, so both are \<open>Num 0\<close>.\<close>

datatype number = NaN | Num int | Infinity | NegInfinity

text \<open>The number of binary digits of a natural number.\<close>

fun bit_length :: "nat \<Rightarrow> nat" where
  "bit_length n = (if n = 0 then 0 else Suc (bit_length (n div 2)))"

declare bit_length.simps [simp del]

text \<open>The double nearest to a natural number, ties to the even significand: the 53 leading
  binary digits are kept, and the rest decides the rounding.\<close>

definition round_even :: "nat \<Rightarrow> nat" where
  "round_even n =
     (let e = bit_length n - 53; q = n div 2 ^ e; r = n mod 2 ^ e; h = 2 ^ (e - 1)
      in (if h < r \<or> (r = h \<and> odd q) then q + 1 else q) * 2 ^ e)"

text \<open>The Number value of the integer that \<open>parseInt\<close> has read: exact below \<open>2^53\<close>,
  rounded above, and an infinity when the rounded value reaches \<open>2^1024\<close>.\<close>

definition to_number :: "bool \<Rightarrow> nat \<Rightarrow> number" where
  "to_number neg n =
     (if int n < 9007199254740992 then Num (signed neg n)
      else (let r = round_even n in
            if r < 2 ^ 1024 then Num (signed neg r)
            else if neg then NegInfinity else Infinity))"

text \<open>\<open>parseInt(s, 10)\<close>: the longest prefix of decimal digits after white space and
  sign; \<open>NaN\<close> when that prefix is empty.\<close>

definition parseInt10 :: "string \<Rightarrow> number" where
  "parseInt10 s =
     (let (neg, r) = strip_sign s; ds = takeWhile is_digit r
      in if ds = [] then NaN else to_number neg (digits_val ds))"

text \<open>\<open>parseInt(s)\<close> without a radix: a prefix \<open>0x\<close> or \<open>0X\<close> selects radix 16,
  otherwise radix 10.\<close>

definition parseInt :: "string \<Rightarrow> number" where
  "parseInt s =
     (let (neg, r) = strip_sign s in
      case r of
        c0 # c1 # hs \<Rightarrow>
          if c0 = CHR ''0'' \<and> (c1 = CHR ''x'' \<or> c1 = CHR ''X'') then
            (let ds = takeWhile (\<lambda>c. hex_val c \<noteq> None) hs
             in if ds = [] then NaN else to_number neg (hexs_val ds))
          else
            (let ds = takeWhile is_digit r
             in if ds = [] then NaN else to_number neg (digits_val ds))
      | _ \<Rightarrow>
          (let ds = takeWhile is_digit r
           in if ds = [] then NaN else to_number neg (digits_val ds)))"

subsection \<open>Time Grid Model: the overlap primitive\<close>

text \<open>An element of an array read by destructuring: \<open>undefined\<close> when the array is too
  short. \<open>Math.max\<close> and \<open>Math.min\<close> turn \<open>undefined\<close> into \<open>NaN\<close>, so both are
  \<open>NaN\<close> here.\<close>

definition nth_number :: "number list \<Rightarrow> nat \<Rightarrow> number" where
  "nth_number xs i = (if i < length xs then xs ! i else NaN)"

text \<open>\<open>a < b\<close> on numbers: false as soon as one side is \<open>NaN\<close>.\<close>

fun num_less :: "number \<Rightarrow> number \<Rightarrow> bool" where
  "num_less NaN b = False"
| "num_less a NaN = False"
| "num_less (Num x) (Num y) = (x < y)"
| "num_less a NegInfinity = False"
| "num_less NegInfinity b = True"
| "num_less Infinity b = False"
| "num_less a Infinity = True"

text \<open>\<open>Math.max\<close> and \<open>Math.min\<close> of two numbers: \<open>NaN\<close> as soon as one of them is.\<close>

definition Math_max :: "number \<Rightarrow> number \<Rightarrow> number" where
  "Math_max a b = (if a = NaN \<or> b = NaN then NaN else if num_less a b then b else a)"

definition Math_min :: "number \<Rightarrow> number \<Rightarrow> number" where
  "Math_min a b = (if a = NaN \<or> b = NaN then NaN else if num_less b a then b else a)"

text \<open>\<open>time.split('-').map(t => parseInt(t.replace(':', ''), 10))\<close>.\<close>

definition parse_range :: "string \<Rightarrow> number list" where
  "parse_range t = map (\<lambda>p. parseInt10 (replace_colon p)) (str_split (CHR ''-'') t)"

datatype js_error = RangeError | AdvisorError | AnalysisNotAvailable

text \<open>The body of the \<open>try\<close> block of \<open>AITimetableGenerator.doTimesOverlap\<close>. On
  strings none of \<open>split\<close>, \<open>map\<close>, \<open>replace\<close>, \<open>parseInt\<close>, \<open>Math.max\<close> and
  \<open>Math.min\<close> throws, so the body always returns normally. This is also the whole of
  \<open>TimetableGenerator.doTimesOverlap\<close>, which has no \<open>try\<close>.\<close>

definition overlap_body :: "string \<Rightarrow> string \<Rightarrow> js_error + bool" where
  "overlap_body time1 time2 =
     (let r1 = parse_range time1; r2 = parse_range time2;
          start1 = nth_number r1 0; end1 = nth_number r1 1;
          start2 = nth_number r2 0; end2 = nth_number r2 1
      in Inr (num_less (Math_max start1 start2) (Math_min end1 end2)))"

text \<open>\<open>doTimesOverlap\<close>: the \<open>catch\<close> branch answers \<open>true\<close>.\<close>

definition doTimesOverlap :: "string \<Rightarrow> string \<Rightarrow> bool" where
  "doTimesOverlap time1 time2 =
     (case overlap_body time1 time2 of Inl e \<Rightarrow> True | Inr b \<Rightarrow> b)"

text \<open>A well-formed time range is \<open>H:MM-H:MM\<close>: hours are a non-empty digit string,
  minutes two digits. Its HHMM integer is the hours times 100 plus the minutes.\<close>

definition is_clock :: "string \<Rightarrow> string \<Rightarrow> bool" where
  "is_clock hs ms = (hs \<noteq> [] \<and> list_all is_digit hs \<and> length ms = 2 \<and> list_all is_digit ms)"

definition hhmm :: "string \<Rightarrow> string \<Rightarrow> int" where
  "hhmm hs ms = int (digits_val hs) * 100 + int (digits_val ms)"

definition range_str :: "string \<Rightarrow> string \<Rightarrow> string \<Rightarrow> string \<Rightarrow> string" where
  "range_str hs ms he me = hs @ '':'' @ ms @ ''-'' @ he @ '':'' @ me"

text \<open>\<open>s.split(sep)[0]\<close>: the piece before the first separator.\<close>

definition split_first :: "char \<Rightarrow> string \<Rightarrow> string" where
  "split_first sep s = takeWhile (\<lambda>c. c \<noteq> sep) s"

subsection \<open>Data model\<close>

datatype year = SE | TE | BE

datatype batch = BatchA | BatchB | BatchC

datatype slot_type = Theory | Lab

definition year_str :: "year \<Rightarrow> string" where
  "year_str y = (case y of SE \<Rightarrow> ''SE'' | TE \<Rightarrow> ''TE'' | BE \<Rightarrow> ''BE'')"

definition batch_str :: "batch \<Rightarrow> string" where
  "batch_str b = (case b of BatchA \<Rightarrow> ''A'' | BatchB \<Rightarrow> ''B'' | BatchC \<Rightarrow> ''C'')"

text \<open>An optional batch inside a template literal: \<open>undefined\<close> prints as such.\<close>

definition batch_opt_str :: "batch option \<Rightarrow> string" where
  "batch_opt_str b = (case b of None \<Rightarrow> ''undefined'' | Some x \<Rightarrow> batch_str x)"

text \<open>\<open>Subject.faculty\<close> is either a name or a populated faculty document.\<close>

datatype faculty_ref =
    FacultyName string
  | FacultyDoc (doc_id: string) (doc_name: string) (doc_email: string) (doc_department: string)

record subject =
  sub_id :: string
  sub_name :: string
  sub_code :: string
  sub_year :: year
  theoryHours :: int
  labHours :: int
  sub_faculty :: faculty_ref
  sub_semester :: int

text \<open>Of \<open>Faculty\<close>, \<open>Classroom\<close> and \<open>Lab\<close> the engine reads the fields below; the
  contact, capacity, floor and equipment fields are never read by it.\<close>

record faculty =
  fac_name :: string
  maxHoursPerDay :: int
  preferredSlots :: "string list"

record classroom =
  cls_name :: string
  assignedYear :: year

record lab =
  lab_name :: string

text \<open>\<open>TimetableSlot\<close>, with the optional flag of \<open>ExtendedTimetableSlot\<close>; an
  absent flag is \<open>False\<close>.\<close>

record slot =
  s_id :: string
  s_day :: string
  s_time :: string
  s_subject :: string
  s_faculty :: string
  s_room :: string
  s_type :: slot_type
  s_year :: year
  s_batch :: "batch option"
  s_duration :: int
  s_semester :: int
  isFillIn :: bool

datatype conflict_type = Error | Warning | Info | Success

datatype severity = Low | Medium | High

text \<open>Conflict messages are template literals. Each template is a constructor that
  holds the interpolated values, in the order in which the template prints them.\<close>

datatype message =
    MsgFacultyConflict string string string
  | MsgRoomDoubleBooked string string string
  | MsgStudentsConflict string string
  | MsgFacultyExceedsDaily string string
  | MsgBackToBackLabs string string
  | MsgLabInMorning string
  | MsgOutsidePreferred string
  | MsgNoSubjects year int
  | MsgNoClassrooms year
  | MsgFallbackFailed js_error
  | MsgOnlyTheory string nat int
  | MsgHasTheory string nat int
  | MsgConsecutive string string string string
  | MsgOnlyLab string nat int
  | MsgHasLab string nat int
  | MsgLabMissing string batch
  | MsgFacultyLoad string int int string
  | MsgLowRoomUtilization nat nat
  | MsgHighUsage string nat
  | MsgUnscheduledLab string year "batch option"
  | MsgUnscheduledLectures nat string
  | MsgCouldNotScheduleLab string year "batch option"
  | MsgCouldNotScheduleLectures nat string
  | MsgAdvisor string

record conflict =
  c_type :: conflict_type
  c_message :: message
  c_severity :: severity
  affectedEntities :: "string list"

subsection \<open>Constraint Rule Engine\<close>

datatype rule_type = Hard | Soft

record rule_context =
  ctx_subjects :: "subject list"
  ctx_faculty :: "faculty list"

record rule =
  rule_id :: string
  rule_name :: string
  r_type :: rule_type
  weight :: int
  validate :: "slot \<Rightarrow> slot list \<Rightarrow> rule_context \<Rightarrow> bool"
  getMessage :: "slot \<Rightarrow> message"

text \<open>The three hard rules compare the time strings for equality.\<close>

definition no_faculty_conflict :: "slot \<Rightarrow> slot list \<Rightarrow> rule_context \<Rightarrow> bool" where
  "no_faculty_conflict sl allSlots ctx =
     (\<not> list_ex (\<lambda>existing.
          s_faculty existing = s_faculty sl \<and> s_day existing = s_day sl \<and>
          s_time existing = s_time sl \<and> s_id existing \<noteq> s_id sl) allSlots)"

definition no_room_conflict :: "slot \<Rightarrow> slot list \<Rightarrow> rule_context \<Rightarrow> bool" where
  "no_room_conflict sl allSlots ctx =
     (\<not> list_ex (\<lambda>existing.
          s_room existing = s_room sl \<and> s_day existing = s_day sl \<and>
          s_time existing = s_time sl \<and> s_id existing \<noteq> s_id sl) allSlots)"

definition no_student_conflict :: "slot \<Rightarrow> slot list \<Rightarrow> rule_context \<Rightarrow> bool" where
  "no_student_conflict sl allSlots ctx =
     (\<not> list_ex (\<lambda>existing.
          s_year existing = s_year sl \<and> s_batch existing = s_batch sl \<and>
          s_day existing = s_day sl \<and> s_time existing = s_time sl \<and>
          s_id existing \<noteq> s_id sl) allSlots)"

definition faculty_max_hours :: "slot \<Rightarrow> slot list \<Rightarrow> rule_context \<Rightarrow> bool" where
  "faculty_max_hours sl allSlots ctx =
     (case find (\<lambda>f. fac_name f = s_faculty sl) (ctx_faculty ctx) of
        None \<Rightarrow> True
      | Some f \<Rightarrow>
          (let dailyHours =
             foldl (\<lambda>sum s. sum + s_duration s) 0
               (filter (\<lambda>s. s_faculty s = s_faculty sl \<and> s_day s = s_day sl) allSlots)
           in dailyHours \<le> maxHoursPerDay f))"

text \<open>\<open>xs[i]\<close> for an index that may be out of range: \<open>undefined\<close> there.\<close>

definition at_index :: "'a list \<Rightarrow> int \<Rightarrow> 'a option" where
  "at_index xs i = (if 0 \<le> i \<and> i < int (length xs) then Some (xs ! nat i) else None)"

text \<open>\<open>[a, b].filter(Boolean)\<close> on strings drops \<open>undefined\<close> and the empty string.\<close>

definition filter_Boolean :: "string option list \<Rightarrow> string list" where
  "filter_Boolean xs = List.map_filter (\<lambda>x. case x of None \<Rightarrow> None
                                          | Some v \<Rightarrow> if v = [] then None else Some v) xs"

definition no_back_to_back_labs :: "slot \<Rightarrow> slot list \<Rightarrow> rule_context \<Rightarrow> bool" where
  "no_back_to_back_labs sl allSlots ctx =
     (if s_type sl \<noteq> Lab then True
      else
        (let timeSlots = [''1:15-3:15'', ''3:15-5:15''];
             currentIndex = indexOf timeSlots (s_time sl)
         in if currentIndex = -1 then True
            else
              (let adjacentTimes =
                     filter_Boolean [at_index timeSlots (currentIndex - 1),
                                     at_index timeSlots (currentIndex + 1)]
               in \<not> list_ex (\<lambda>existing.
                      s_faculty existing = s_faculty sl \<and> s_day existing = s_day sl \<and>
                      s_type existing = Lab \<and> s_time existing \<in> set adjacentTimes \<and>
                      s_id existing \<noteq> s_id sl) allSlots)))"

text \<open>\<open>hour >= n\<close> and \<open>hour < n\<close> are false for \<open>NaN\<close>.\<close>

definition num_ge :: "number \<Rightarrow> int \<Rightarrow> bool" where
  "num_ge a n =
     (case a of NaN \<Rightarrow> False | Num x \<Rightarrow> n \<le> x | Infinity \<Rightarrow> True | NegInfinity \<Rightarrow> False)"

definition num_lt :: "number \<Rightarrow> int \<Rightarrow> bool" where
  "num_lt a n =
     (case a of NaN \<Rightarrow> False | Num x \<Rightarrow> x < n | Infinity \<Rightarrow> False | NegInfinity \<Rightarrow> True)"

definition lab_afternoon_preference :: "slot \<Rightarrow> slot list \<Rightarrow> rule_context \<Rightarrow> bool" where
  "lab_afternoon_preference sl allSlots ctx =
     (if s_type sl \<noteq> Lab then True
      else (let hour = parseInt (split_first (CHR '':'') (s_time sl)) in num_ge hour 13))"

definition faculty_preferred_slots :: "slot \<Rightarrow> slot list \<Rightarrow> rule_context \<Rightarrow> bool" where
  "faculty_preferred_slots sl allSlots ctx =
     (case find (\<lambda>f. fac_name f = s_faculty sl) (ctx_faculty ctx) of
        None \<Rightarrow> True
      | Some f \<Rightarrow>
          if length (preferredSlots f) = 0 then True
          else
            (let hour = parseInt (split_first (CHR '':'') (s_time sl))
             in list_ex (\<lambda>pref.
                  if str_includes pref ''Morning'' \<and> num_ge hour 8 \<and> num_lt hour 12 then True
                  else if str_includes pref ''Afternoon'' \<and> num_ge hour 12 \<and> num_lt hour 17
                    then True
                  else if str_includes pref ''Evening'' \<and> num_ge hour 17 then True
                  else False) (preferredSlots f)))"

text \<open>\<open>initializeDefaultRules\<close>: the rule list of a fresh solver, in the order in which
  the rules are pushed.\<close>

definition initializeDefaultRules :: "rule list" where
  "initializeDefaultRules =
     [ \<lparr> rule_id = ''no-faculty-conflict'', rule_name = ''No Faculty Time Conflict'',
         r_type = Hard, weight = 100, validate = no_faculty_conflict,
         getMessage = (\<lambda>sl. MsgFacultyConflict (s_faculty sl) (s_time sl) (s_day sl)) \<rparr>,
       \<lparr> rule_id = ''no-room-conflict'', rule_name = ''No Room Double Booking'',
         r_type = Hard, weight = 100, validate = no_room_conflict,
         getMessage = (\<lambda>sl. MsgRoomDoubleBooked (s_room sl) (s_time sl) (s_day sl)) \<rparr>,
       \<lparr> rule_id = ''no-student-conflict'', rule_name = ''No Student Time Conflict'',
         r_type = Hard, weight = 100, validate = no_student_conflict,
         getMessage = (\<lambda>sl. MsgStudentsConflict (s_time sl) (s_day sl)) \<rparr>,
       \<lparr> rule_id = ''faculty-max-hours'', rule_name = ''Faculty Daily Hour Limit'',
         r_type = Soft, weight = 80, validate = faculty_max_hours,
         getMessage = (\<lambda>sl. MsgFacultyExceedsDaily (s_faculty sl) (s_day sl)) \<rparr>,
       \<lparr> rule_id = ''no-back-to-back-labs'', rule_name = ''No Consecutive Labs for Faculty'',
         r_type = Soft, weight = 70, validate = no_back_to_back_labs,
         getMessage = (\<lambda>sl. MsgBackToBackLabs (s_faculty sl) (s_day sl)) \<rparr>,
       \<lparr> rule_id = ''lab-afternoon-preference'', rule_name = ''Prefer Labs in Afternoon'',
         r_type = Soft, weight = 60, validate = lab_afternoon_preference,
         getMessage = (\<lambda>sl. MsgLabInMorning (s_subject sl)) \<rparr>,
       \<lparr> rule_id = ''faculty-preferred-slots'', rule_name = ''Faculty Slot Preferences'',
         r_type = Soft, weight = 50, validate = faculty_preferred_slots,
         getMessage = (\<lambda>sl. MsgOutsidePreferred (s_faculty sl)) \<rparr> ]"

record validation =
  isValid :: bool
  v_conflicts :: "conflict list"
  score :: int

text \<open>The running values of \<open>validateTimetable\<close>: the conflicts pushed so far, the
  score and the counter of hard violations.\<close>

record tally =
  t_conflicts :: "conflict list"
  t_score :: int
  hardConstraintViolations :: nat

text \<open>The body of the inner loop, for one slot and one rule.\<close>

definition apply_rule :: "slot list \<Rightarrow> rule_context \<Rightarrow> slot \<Rightarrow> tally \<Rightarrow> rule \<Rightarrow> tally" where
  "apply_rule slots ctx sl acc r =
     (if \<not> validate r sl slots ctx then
        (let c = \<lparr> c_type = (if r_type r = Hard then Error else Warning),
                   c_message = getMessage r sl,
                   c_severity = (if r_type r = Hard then High else Medium),
                   affectedEntities = [s_faculty sl, s_subject sl, s_room sl] \<rparr>;
             acc' = acc \<lparr> t_conflicts := t_conflicts acc @ [c] \<rparr>
         in if r_type r = Hard
            then acc' \<lparr> hardConstraintViolations := hardConstraintViolations acc' + 1 \<rparr>
            else acc' \<lparr> t_score := t_score acc' - weight r \<rparr>)
      else if r_type r = Soft then acc \<lparr> t_score := t_score acc + weight r \<rparr>
      else acc)"

text \<open>\<open>validateTimetable\<close>; the rule list is the solver's field \<open>rules\<close>, which
  \<open>addCustomRule\<close> and \<open>removeRule\<close> may have changed.\<close>

definition validateTimetable :: "rule list \<Rightarrow> slot list \<Rightarrow> rule_context \<Rightarrow> validation" where
  "validateTimetable rules slots ctx =
     (let acc = foldl (\<lambda>acc sl. foldl (apply_rule slots ctx sl) acc rules)
                  \<lparr> t_conflicts = [], t_score = 0, hardConstraintViolations = 0 \<rparr> slots
      in \<lparr> isValid = (hardConstraintViolations acc = 0),
           v_conflicts = t_conflicts acc,
           score = t_score acc \<rparr>)"

definition addCustomRule :: "rule list \<Rightarrow> rule \<Rightarrow> rule list" where
  "addCustomRule rules r = rules @ [r]"

definition removeRule :: "rule list \<Rightarrow> string \<Rightarrow> rule list" where
  "removeRule rules ruleId = filter (\<lambda>r. rule_id r \<noteq> ruleId) rules"

text \<open>What each (slot, rule) pair contributes to the score.\<close>

definition score_of :: "slot list \<Rightarrow> rule_context \<Rightarrow> slot \<Rightarrow> rule \<Rightarrow> int" where
  "score_of slots ctx sl r =
     (if r_type r = Soft then (if validate r sl slots ctx then weight r else - weight r)
      else 0)"

subsection \<open>The generator object\<close>

datatype band = Morning | Afternoon

text \<open>\<open>TimetableConstraints\<close>. The engine reads \<open>yearBatchType\<close> only; an absent
  \<open>yearBatchType\<close> is \<open>None\<close>.\<close>

record constraints =
  con_maxHoursPerDay :: int
  minBreakBetweenClasses :: int
  maxConsecutiveHours :: int
  prioritizeLabAfternoon :: bool
  allowBackToBackTheory :: bool
  facultyRestSlots :: int
  yearBatchType :: "(year \<Rightarrow> band) option"

text \<open>One entry of \<open>ConstraintAnalysisResult.recommendedSlots\<close>.\<close>

record recommendation =
  rec_subject :: string
  rec_faculty :: string
  rec_day :: string
  rec_time :: string
  rec_room :: string
  rec_type :: slot_type
  rec_batch :: "batch option"
  confidence :: int
  reasoning :: string

text \<open>\<open>ConstraintAnalysisResult\<close>, the answer of the advisory step. Its conflicts are
  copied without \<open>suggestedFix\<close>, which is therefore left out.\<close>

record analysis =
  a_isValid :: bool
  a_conflicts :: "conflict list"
  optimizationSuggestions :: "string list"
  constraintScore :: int
  recommendedSlots :: "recommendation list"

text \<open>The fields of \<open>AITimetableGenerator\<close>; \<open>TimetableGenerator\<close> has the same
  fields without \<open>analysisResult\<close>.\<close>

record generator =
  subjects :: "subject list"
  facultyList :: "faculty list"
  classrooms :: "classroom list"
  labs :: "lab list"
  gen_constraints :: constraints
  generatedSlots :: "slot list"
  conflicts :: "conflict list"
  analysisResult :: "analysis option"

definition new_generator ::
  "subject list \<Rightarrow> faculty list \<Rightarrow> classroom list \<Rightarrow> lab list \<Rightarrow> constraints \<Rightarrow> generator" where
  "new_generator ss fs cs ls con =
     \<lparr> subjects = ss, facultyList = fs, classrooms = cs, labs = ls, gen_constraints = con,
       generatedSlots = [], conflicts = [], analysisResult = None \<rparr>"

definition DAYS :: "string list" where
  "DAYS = [''Monday'', ''Tuesday'', ''Wednesday'', ''Thursday'', ''Friday'', ''Saturday'']"

definition MORNING_THEORY_SLOTS :: "string list" where
  "MORNING_THEORY_SLOTS =
     [''8:10-9:10'', ''9:10-10:10'', ''10:25-11:20'', ''11:20-12:15'', ''1:05-2:00'', ''2:00-2:55'']"

definition AFTERNOON_THEORY_SLOTS :: "string list" where
  "AFTERNOON_THEORY_SLOTS =
     [''10:25-11:20'', ''11:20-12:15'', ''1:05-2:00'', ''2:00-2:55'', ''3:05-4:00'', ''4:00-4:55'']"

definition MORNING_LAB_SLOTS :: "string list" where
  "MORNING_LAB_SLOTS = [''8:10-10:10'', ''10:25-12:15'', ''1:05-2:55'']"

definition AFTERNOON_LAB_SLOTS :: "string list" where
  "AFTERNOON_LAB_SLOTS = [''10:25-12:15'', ''1:05-2:55'', ''3:05-4:55'']"

definition ALL_THEORY_SLOTS :: "string list" where
  "ALL_THEORY_SLOTS =
     [''8:10-9:10'', ''9:10-10:10'', ''10:25-11:20'', ''11:20-12:15'', ''1:05-2:00'', ''2:00-2:55'',
      ''3:05-4:00'', ''4:00-4:55'']"

subsection \<open>Demand Pool Builder\<close>

text \<open>An unscheduled lecture or lab block. \<open>d_ref\<close> is the identity of the pool object,
  which the code compares with \<open>===\<close>: \<open>Array(n).fill(obj)\<close> puts the same object at
  every position, so all lecture units of one subject share the position of that subject
  in the subject list as their identity, while every lab unit is an object of its own,
  identified by its position in the fresh pool. A lecture unit has no batch.\<close>

record demand =
  d_ref :: nat
  d_subject :: subject
  d_year :: year
  d_batch :: "batch option"

text \<open>\<open>Array(n)\<close> throws a \<open>RangeError\<close> unless \<open>n\<close> is an array length, an integer from
  \<open>0\<close> to \<open>2^32 - 1\<close>.\<close>

definition Array_n :: "int \<Rightarrow> js_error + nat" where
  "Array_n n = (if n < 0 \<or> 4294967295 < n then Inl RangeError else Inr (nat n))"

text \<open>\<open>Math.ceil(n / 2)\<close> on an integer.\<close>

definition ceil_half :: "int \<Rightarrow> int" where
  "ceil_half n = (n + 1) div 2"

text \<open>\<open>xs.flatMap(f)\<close> for an \<open>f\<close> that may throw: the first exception ends it.\<close>

fun flatMap_err :: "('a \<Rightarrow> js_error + 'b list) \<Rightarrow> 'a list \<Rightarrow> js_error + 'b list" where
  "flatMap_err f [] = Inr []"
| "flatMap_err f (x # xs) =
     (case f x of
        Inl e \<Rightarrow> Inl e
      | Inr ys \<Rightarrow> (case flatMap_err f xs of Inl e \<Rightarrow> Inl e | Inr zs \<Rightarrow> Inr (ys @ zs)))"

definition lecture_units :: "nat \<times> subject \<Rightarrow> js_error + demand list" where
  "lecture_units p =
     (case Array_n (theoryHours (snd p)) of
        Inl e \<Rightarrow> Inl e
      | Inr n \<Rightarrow> Inr (replicate n \<lparr> d_ref = fst p, d_subject = snd p,
                                     d_year = sub_year (snd p), d_batch = None \<rparr>))"

definition createLecturePool :: "subject list \<Rightarrow> js_error + demand list" where
  "createLecturePool ss = flatMap_err lecture_units (enumerate 0 ss)"

definition lab_units :: "subject \<Rightarrow> js_error + demand list" where
  "lab_units s =
     (case Array_n (ceil_half (labHours s)) of
        Inl e \<Rightarrow> Inl e
      | Inr n \<Rightarrow> Inr (concat (replicate n
                   (map (\<lambda>b. \<lparr> d_ref = 0, d_subject = s, d_year = sub_year s, d_batch = Some b \<rparr>)
                      [BatchA, BatchB, BatchC]))))"

text \<open>Every lab unit is a fresh object: its identity is its position in the pool.\<close>

definition createLabPool :: "subject list \<Rightarrow> js_error + demand list" where
  "createLabPool ss =
     (case flatMap_err lab_units ss of
        Inl e \<Rightarrow> Inl e
      | Inr ds \<Rightarrow> Inr (map (\<lambda>p. (snd p) \<lparr> d_ref := fst p \<rparr>) (enumerate 0 ds)))"

subsection \<open>Availability checks of the generator\<close>

definition getFacultyName :: "subject \<Rightarrow> string" where
  "getFacultyName s = (case sub_faculty s of FacultyName n \<Rightarrow> n | FacultyDoc i n e d \<Rightarrow> n)"

definition getSlotDuration :: "string \<Rightarrow> int" where
  "getSlotDuration t = (if t \<in> set MORNING_LAB_SLOTS \<or> t \<in> set AFTERNOON_LAB_SLOTS then 2 else 1)"

definition getBatchTypeForYear :: "generator \<Rightarrow> year \<Rightarrow> band" where
  "getBatchTypeForYear g y =
     (case yearBatchType (gen_constraints g) of
        Some m \<Rightarrow> m y
      | None \<Rightarrow> (if y = BE then Afternoon else Morning))"

definition getLabSlotsForYear :: "generator \<Rightarrow> year \<Rightarrow> string list" where
  "getLabSlotsForYear g y =
     (if getBatchTypeForYear g y = Morning then MORNING_LAB_SLOTS else AFTERNOON_LAB_SLOTS)"

definition isYearOccupied :: "generator \<Rightarrow> year \<Rightarrow> string \<Rightarrow> string \<Rightarrow> bool" where
  "isYearOccupied g y d t =
     list_ex (\<lambda>s. s_year s = y \<and> s_batch s = None \<and> s_day s = d \<and> doTimesOverlap (s_time s) t)
       (generatedSlots g)"

definition isRoomOccupied :: "generator \<Rightarrow> string \<Rightarrow> string \<Rightarrow> string \<Rightarrow> bool" where
  "isRoomOccupied g roomName d t =
     list_ex (\<lambda>s. s_room s = roomName \<and> s_day s = d \<and> doTimesOverlap (s_time s) t)
       (generatedSlots g)"

definition isSlotAvailable :: "generator \<Rightarrow> string \<Rightarrow> string \<Rightarrow> string \<Rightarrow> bool" where
  "isSlotAvailable g d t r =
     (\<not> list_ex (\<lambda>s. s_day s = d \<and> doTimesOverlap (s_time s) t \<and> s_room s = r)
          (generatedSlots g))"

definition isFacultyAvailable :: "generator \<Rightarrow> string \<Rightarrow> string \<Rightarrow> string \<Rightarrow> bool" where
  "isFacultyAvailable g n d t =
     (\<not> list_ex (\<lambda>s. s_faculty s = n \<and> s_day s = d \<and> doTimesOverlap (s_time s) t)
          (generatedSlots g))"

definition isBatchAvailable :: "generator \<Rightarrow> year \<Rightarrow> batch option \<Rightarrow> string \<Rightarrow> string \<Rightarrow> bool" where
  "isBatchAvailable g y b d t =
     (\<not> list_ex (\<lambda>s. s_year s = y \<and> (b = None \<or> s_batch s = None \<or> s_batch s = b) \<and>
                     s_day s = d \<and> doTimesOverlap (s_time s) t)
          (generatedSlots g))"

text \<open>\<open>getAvailableRooms\<close> returns rooms of either kind; its callers read their names
  only, so the model returns the names.\<close>

definition getAvailableRooms :: "generator \<Rightarrow> string \<Rightarrow> string \<Rightarrow> slot_type \<Rightarrow> string list" where
  "getAvailableRooms g d t ty =
     (let allRooms = (if ty = Lab then map lab_name (labs g) else map cls_name (classrooms g));
          bookedRooms = map s_room
            (filter (\<lambda>s. s_day s = d \<and> doTimesOverlap (s_time s) t) (generatedSlots g))
      in filter (\<lambda>r. r \<notin> set bookedRooms) allRooms)"

definition hadConsecutiveLabForBatch ::
  "generator \<Rightarrow> year \<Rightarrow> batch option \<Rightarrow> string \<Rightarrow> string \<Rightarrow> bool" where
  "hadConsecutiveLabForBatch g y b d t =
     (let labSlots = getLabSlotsForYear g y; timeIndex = indexOf labSlots t
      in if timeIndex \<le> 0 then False
         else (case at_index labSlots (timeIndex - 1) of
                 None \<Rightarrow> False
               | Some previousTime \<Rightarrow>
                   list_ex (\<lambda>s. s_type s = Lab \<and> s_year s = y \<and> s_batch s = b \<and> s_day s = d \<and>
                                s_time s = previousTime) (generatedSlots g)))"

definition hadConsecutiveLabForFaculty :: "generator \<Rightarrow> string \<Rightarrow> string \<Rightarrow> string \<Rightarrow> bool" where
  "hadConsecutiveLabForFaculty g n d t =
     (let allLabSlots = MORNING_LAB_SLOTS @ AFTERNOON_LAB_SLOTS; timeIndex = indexOf allLabSlots t
      in if timeIndex \<le> 0 then False
         else (case at_index allLabSlots (timeIndex - 1) of
                 None \<Rightarrow> False
               | Some previousTime \<Rightarrow>
                   list_ex (\<lambda>s. s_type s = Lab \<and> s_faculty s = n \<and> s_day s = d \<and>
                                s_time s = previousTime) (generatedSlots g)))"

definition hasLabAlreadyOccurredTodayForBatch ::
  "generator \<Rightarrow> year \<Rightarrow> batch option \<Rightarrow> string \<Rightarrow> bool" where
  "hasLabAlreadyOccurredTodayForBatch g y b d =
     list_ex (\<lambda>s. s_type s = Lab \<and> s_day s = d \<and> s_year s = y \<and> s_batch s = b) (generatedSlots g)"

text \<open>Neighbouring entries of an array, as the loop \<open>for (i = 0; i < n - 1; i++)\<close>
  visits them.\<close>

definition adjacent_pairs :: "'a list \<Rightarrow> ('a \<times> 'a) list" where
  "adjacent_pairs xs = zip xs (tl xs)"

text \<open>\<open>hasConsecutiveSession\<close>. The sort is stable and its comparator is the difference
  of two positions, which \<open>sort_key\<close> on the position computes.\<close>

definition hasConsecutiveSession :: "generator \<Rightarrow> slot \<Rightarrow> bool" where
  "hasConsecutiveSession g sl =
     (if s_type sl \<noteq> Theory then False
      else
        (let potentialSlots = generatedSlots g @ [sl];
             sameDaySlots = sort_key (\<lambda>s. indexOf ALL_THEORY_SLOTS (s_time s))
               (filter (\<lambda>s. s_day s = s_day sl \<and> s_subject s = s_subject sl \<and>
                            s_year s = s_year sl \<and> s_type s = Theory) potentialSlots)
         in list_ex (\<lambda>p. let currentIndex = indexOf ALL_THEORY_SLOTS (s_time (fst p));
                             nextIndex = indexOf ALL_THEORY_SLOTS (s_time (snd p))
                         in currentIndex \<noteq> -1 \<and> nextIndex = currentIndex + 1)
              (adjacent_pairs sameDaySlots)))"

subsection \<open>Acceptance-time validation\<close>

text \<open>The double-booking test of \<open>validateSlot\<close> between one accepted slot and the
  candidate.\<close>

definition basic_conflict :: "slot \<Rightarrow> slot \<Rightarrow> bool" where
  "basic_conflict existing sl =
     ((s_faculty existing = s_faculty sl \<and> s_day existing = s_day sl \<and>
         doTimesOverlap (s_time existing) (s_time sl)) \<or>
      (s_room existing = s_room sl \<and> s_day existing = s_day sl \<and>
         doTimesOverlap (s_time existing) (s_time sl)) \<or>
      (s_year existing = s_year sl \<and> s_day existing = s_day sl \<and>
         doTimesOverlap (s_time existing) (s_time sl) \<and>
         (s_batch sl = None \<or> s_batch existing = None \<or> s_batch existing = s_batch sl)))"

text \<open>\<open>subjectDef?.theoryHours || 3\<close>: the default also replaces a declared \<open>0\<close>.\<close>

definition maxAllowed :: "generator \<Rightarrow> slot \<Rightarrow> int" where
  "maxAllowed g sl =
     (case find (\<lambda>s. sub_name s = s_subject sl \<and> sub_year s = s_year sl) (subjects g) of
        None \<Rightarrow> 3
      | Some subjectDef \<Rightarrow> (if theoryHours subjectDef = 0 then 3 else theoryHours subjectDef))"

definition weeklyTheoryCount :: "slot list \<Rightarrow> string \<Rightarrow> year \<Rightarrow> nat" where
  "weeklyTheoryCount slots subj y =
     length (filter (\<lambda>s. s_type s = Theory \<and> s_subject s = subj \<and> s_year s = y) slots)"

definition weeklyLabCount :: "slot list \<Rightarrow> string \<Rightarrow> year \<Rightarrow> batch option \<Rightarrow> nat" where
  "weeklyLabCount slots subj y b =
     length (filter (\<lambda>s. s_type s = Lab \<and> s_subject s = subj \<and> s_year s = y \<and> s_batch s = b) slots)"

definition validateSlot :: "generator \<Rightarrow> slot \<Rightarrow> bool" where
  "validateSlot g sl =
     (if list_ex (\<lambda>existing. basic_conflict existing sl) (generatedSlots g) then False
      else if s_type sl = Theory \<and> hasConsecutiveSession g sl then False
      else if s_type sl = Theory \<and>
              int (weeklyTheoryCount (generatedSlots g) (s_subject sl) (s_year sl)) \<ge> maxAllowed g sl
        then False
      else if s_type sl = Lab \<and>
              weeklyLabCount (generatedSlots g) (s_subject sl) (s_year sl) (s_batch sl) \<ge> 1
        then False
      else True)"

text \<open>\<open>this.generatedSlots.push(slot)\<close>.\<close>

definition push_slot :: "generator \<Rightarrow> slot \<Rightarrow> generator" where
  "push_slot g sl = g \<lparr> generatedSlots := generatedSlots g @ [sl] \<rparr>"

definition push_conflict :: "generator \<Rightarrow> conflict \<Rightarrow> generator" where
  "push_conflict g c = g \<lparr> conflicts := conflicts g @ [c] \<rparr>"

subsection \<open>Greedy Scheduler: concurrent lab placement\<close>

datatype gen_mode = AiMode | FallbackMode

text \<open>\<open>pool.findIndex(p => p === candidate)\<close> followed by \<open>splice\<close>: the first entry
  that is the same object is removed.\<close>

definition remove_ref :: "demand \<Rightarrow> demand list \<Rightarrow> demand list" where
  "remove_ref c pool =
     (case findIndex (\<lambda>p. d_ref p = d_ref c) pool of
        None \<Rightarrow> pool
      | Some i \<Rightarrow> splice_out i pool)"

definition conf_of :: "analysis \<Rightarrow> slot_type \<Rightarrow> demand \<Rightarrow> int" where
  "conf_of ar ty d =
     (case find (\<lambda>r. rec_subject r = sub_name (d_subject d) \<and> rec_type r = ty \<and>
                      (ty = Theory \<or> rec_batch r = d_batch d)) (recommendedSlots ar) of
        None \<Rightarrow> 0
      | Some r \<Rightarrow> confidence r)"

text \<open>\<open>sortPoolByAIInsights\<close>: a stable sort of a copy, higher confidence first; without
  an analysis result the pool itself is returned.\<close>

definition sortPoolByAIInsights :: "generator \<Rightarrow> demand list \<Rightarrow> slot_type \<Rightarrow> demand list" where
  "sortPoolByAIInsights g pool ty =
     (case analysisResult g of
        None \<Rightarrow> pool
      | Some ar \<Rightarrow> sort_key (\<lambda>d. - conf_of ar ty d) pool)"

definition lab_slot :: "demand \<Rightarrow> string \<Rightarrow> string \<Rightarrow> string \<Rightarrow> slot" where
  "lab_slot candidate d t roomName =
     \<lparr> s_id = year_str (d_year candidate) @ ''-'' @ batch_opt_str (d_batch candidate) @ ''-'' @
              sub_code (d_subject candidate) @ ''-'' @ d @ ''-'' @ t @ ''-'' @ roomName,
       s_day = d, s_time = t, s_subject = sub_name (d_subject candidate) @ '' Lab'',
       s_faculty = getFacultyName (d_subject candidate), s_room = roomName, s_type = Lab,
       s_year = d_year candidate, s_batch = d_batch candidate, s_duration = getSlotDuration t,
       s_semester = sub_semester (d_subject candidate), isFillIn = False \<rparr>"

text \<open>The variables that the loop over the candidates of one (day, time) cell changes.\<close>

record sweep =
  sw_gen :: generator
  labsForTargetYear :: "demand list"
  sw_pool :: "demand list"
  facultyScheduledThisSlot :: "string list"
  batchesScheduledThisSlot :: "string list"
  scheduledInThisSlot :: nat

fun lab_candidates :: "string \<Rightarrow> string \<Rightarrow> string list \<Rightarrow> demand list \<Rightarrow> sweep \<Rightarrow> sweep" where
  "lab_candidates d t availableLabRooms [] sw = sw"
| "lab_candidates d t availableLabRooms (candidate # rest) sw =
     (if scheduledInThisSlot sw \<ge> length availableLabRooms then sw
      else
        (let facultyName = getFacultyName (d_subject candidate);
             batchKey = year_str (d_year candidate) @ ''-'' @ batch_opt_str (d_batch candidate)
         in if facultyName \<in> set (facultyScheduledThisSlot sw) \<or>
               batchKey \<in> set (batchesScheduledThisSlot sw)
            then lab_candidates d t availableLabRooms rest sw
            else
              (let labRoom = availableLabRooms ! scheduledInThisSlot sw;
                   sl = lab_slot candidate d t labRoom
               in if validateSlot (sw_gen sw) sl
                  then lab_candidates d t availableLabRooms rest
                         \<lparr> sw_gen = push_slot (sw_gen sw) sl,
                           labsForTargetYear = remove_ref candidate (labsForTargetYear sw),
                           sw_pool = remove_ref candidate (sw_pool sw),
                           facultyScheduledThisSlot = facultyScheduledThisSlot sw @ [facultyName],
                           batchesScheduledThisSlot = batchesScheduledThisSlot sw @ [batchKey],
                           scheduledInThisSlot = scheduledInThisSlot sw + 1 \<rparr>
                  else lab_candidates d t availableLabRooms rest sw)))"

definition lab_candidate_ok :: "generator \<Rightarrow> string \<Rightarrow> string \<Rightarrow> demand \<Rightarrow> bool" where
  "lab_candidate_ok g d t c =
     (isBatchAvailable g (d_year c) (d_batch c) d t \<and>
      isFacultyAvailable g (getFacultyName (d_subject c)) d t \<and>
      \<not> hasLabAlreadyOccurredTodayForBatch g (d_year c) (d_batch c) d \<and>
      \<not> hadConsecutiveLabForFaculty g (getFacultyName (d_subject c)) d t \<and>
      \<not> hadConsecutiveLabForBatch g (d_year c) (d_batch c) d t)"

text \<open>The body of the two nested loops over days and lab bands, on the triple of the
  generator, \<open>labsForTargetYear\<close> and the pool.\<close>

definition lab_cell ::
  "gen_mode \<Rightarrow> generator \<times> demand list \<times> demand list \<Rightarrow> string \<times> string
   \<Rightarrow> generator \<times> demand list \<times> demand list" where
  "lab_cell mode st cell =
     (case st of (g, forYear, pool) \<Rightarrow>
        (let d = fst cell; t = snd cell;
             availableLabRooms = getAvailableRooms g d t Lab
         in if length availableLabRooms = 0 then st
            else
              (let candidates0 = filter (lab_candidate_ok g d t) forYear;
                   candidates = (if mode = AiMode then sortPoolByAIInsights g candidates0 Lab
                                 else candidates0);
                   sw = lab_candidates d t availableLabRooms candidates
                          \<lparr> sw_gen = g, labsForTargetYear = forYear, sw_pool = pool,
                            facultyScheduledThisSlot = [], batchesScheduledThisSlot = [],
                            scheduledInThisSlot = 0 \<rparr>
               in (sw_gen sw, labsForTargetYear sw, sw_pool sw))))"

definition scheduleLabsConcurrently ::
  "generator \<Rightarrow> demand list \<Rightarrow> year \<Rightarrow> gen_mode \<Rightarrow> generator \<times> demand list" where
  "scheduleLabsConcurrently g pool targetYear mode =
     (let forYear = filter (\<lambda>l. d_year l = targetYear) pool;
          labSlots = getLabSlotsForYear g targetYear
      in case foldl (lab_cell mode) (g, forYear, pool) (List.product DAYS labSlots) of
           (g', forYear', pool') \<Rightarrow> (g', pool'))"

subsection \<open>Greedy Scheduler: lecture placement and fill-in\<close>

definition theory_slot :: "string \<Rightarrow> year \<Rightarrow> demand \<Rightarrow> string \<Rightarrow> string \<Rightarrow> string \<Rightarrow> bool \<Rightarrow> slot" where
  "theory_slot idPrefix targetYear lec d t roomName fill =
     \<lparr> s_id = idPrefix @ year_str targetYear @ ''-'' @ sub_code (d_subject lec) @ ''-'' @ d @
              ''-'' @ t,
       s_day = d, s_time = t, s_subject = sub_name (d_subject lec),
       s_faculty = getFacultyName (d_subject lec), s_room = roomName, s_type = Theory,
       s_year = targetYear, s_batch = None, s_duration = getSlotDuration t,
       s_semester = sub_semester (d_subject lec), isFillIn = fill \<rparr>"

text \<open>The predicate of the three \<open>findIndex\<close> calls that look for a lecture: right year,
  faculty free, and the test slot has no session of the same subject next to it.\<close>

definition lecture_fits ::
  "generator \<Rightarrow> string \<Rightarrow> year \<Rightarrow> string \<Rightarrow> string \<Rightarrow> string \<Rightarrow> demand \<Rightarrow> bool" where
  "lecture_fits g testPrefix targetYear d t roomName lec =
     (if d_year lec \<noteq> targetYear then False
      else if \<not> isFacultyAvailable g (getFacultyName (d_subject lec)) d t then False
      else if hasConsecutiveSession g (theory_slot testPrefix targetYear lec d t roomName False)
        then False
      else True)"

text \<open>One (day, time) cell of \<open>scheduleLecturesWithAI\<close>, on the generator, the pool and
  the sorted copy of the pool. A rejected lecture goes back to the end of both.\<close>

definition ai_lecture_cell ::
  "year \<Rightarrow> string \<Rightarrow> generator \<times> demand list \<times> demand list \<Rightarrow> string \<times> string
   \<Rightarrow> generator \<times> demand list \<times> demand list" where
  "ai_lecture_cell targetYear roomName st cell =
     (case st of (g, pool, sortedPool) \<Rightarrow>
        (let d = fst cell; t = snd cell
         in if isYearOccupied g targetYear d t \<or> isRoomOccupied g roomName d t then st
            else
              (case findIndex (lecture_fits g ''test-'' targetYear d t roomName) sortedPool of
                 None \<Rightarrow> st
               | Some bestFitIndex \<Rightarrow>
                   (let lectureToSchedule = sortedPool ! bestFitIndex;
                        sortedPool1 = splice_out bestFitIndex sortedPool;
                        pool1 = remove_ref lectureToSchedule pool;
                        sl = theory_slot [] targetYear lectureToSchedule d t roomName False
                    in if validateSlot g sl then (push_slot g sl, pool1, sortedPool1)
                       else (g, pool1 @ [lectureToSchedule], sortedPool1 @ [lectureToSchedule])))))"

text \<open>The same cell when \<open>sortPoolByAIInsights\<close> has returned the pool itself, so that
  \<open>sortedPool\<close> and \<open>pool\<close> are one array: both removals and both pushes act on it.\<close>

definition ai_lecture_cell_aliased ::
  "year \<Rightarrow> string \<Rightarrow> generator \<times> demand list \<Rightarrow> string \<times> string \<Rightarrow> generator \<times> demand list" where
  "ai_lecture_cell_aliased targetYear roomName st cell =
     (case st of (g, pool) \<Rightarrow>
        (let d = fst cell; t = snd cell
         in if isYearOccupied g targetYear d t \<or> isRoomOccupied g roomName d t then st
            else
              (case findIndex (lecture_fits g ''test-'' targetYear d t roomName) pool of
                 None \<Rightarrow> st
               | Some bestFitIndex \<Rightarrow>
                   (let lectureToSchedule = pool ! bestFitIndex;
                        pool1 = remove_ref lectureToSchedule (splice_out bestFitIndex pool);
                        sl = theory_slot [] targetYear lectureToSchedule d t roomName False
                    in if validateSlot g sl then (push_slot g sl, pool1)
                       else (g, pool1 @ [lectureToSchedule] @ [lectureToSchedule])))))"

definition relevantTheorySlots :: "generator \<Rightarrow> year \<Rightarrow> string list" where
  "relevantTheorySlots g targetYear =
     (if getBatchTypeForYear g targetYear = Morning then MORNING_THEORY_SLOTS
      else AFTERNOON_THEORY_SLOTS)"

definition scheduleLecturesWithAI ::
  "generator \<Rightarrow> demand list \<Rightarrow> year \<Rightarrow> classroom list \<Rightarrow> generator \<times> demand list" where
  "scheduleLecturesWithAI g pool targetYear yearClassrooms =
     (let cells = List.product DAYS (relevantTheorySlots g targetYear)
      in case find (\<lambda>c. assignedYear c = targetYear) yearClassrooms of
           None \<Rightarrow> (g, pool)
         | Some assignedClassroom \<Rightarrow>
             (case analysisResult g of
                None \<Rightarrow>
                  foldl (ai_lecture_cell_aliased targetYear (cls_name assignedClassroom))
                    (g, pool) cells
              | Some ar \<Rightarrow>
                  (case foldl (ai_lecture_cell targetYear (cls_name assignedClassroom))
                          (g, pool, sortPoolByAIInsights g pool Theory) cells of
                     (g', pool', sortedPool') \<Rightarrow> (g', pool'))))"

text \<open>One cell of \<open>scheduleLecturesFallback\<close> (prefix \<open>fb-\<close>, no flag) and of
  \<open>fillRemainingLectureSlots\<close> (prefix \<open>fill-\<close>, flag set): a rejected lecture is put
  back where it was.\<close>

definition direct_lecture_cell ::
  "string \<Rightarrow> bool \<Rightarrow> year \<Rightarrow> string \<Rightarrow> generator \<times> demand list \<Rightarrow> string \<times> string
   \<Rightarrow> generator \<times> demand list" where
  "direct_lecture_cell idPrefix fill targetYear roomName st cell =
     (case st of (g, pool) \<Rightarrow>
        (let d = fst cell; t = snd cell
         in if isYearOccupied g targetYear d t \<or> isRoomOccupied g roomName d t then st
            else
              (case findIndex (lecture_fits g (idPrefix @ ''test-'') targetYear d t roomName) pool of
                 None \<Rightarrow> st
               | Some bestFitIndex \<Rightarrow>
                   (let lectureToSchedule = pool ! bestFitIndex;
                        pool1 = splice_out bestFitIndex pool;
                        sl = theory_slot idPrefix targetYear lectureToSchedule d t roomName fill
                    in if validateSlot g sl then (push_slot g sl, pool1)
                       else (g, splice_in bestFitIndex lectureToSchedule pool1)))))"

definition scheduleLecturesFallback ::
  "generator \<Rightarrow> demand list \<Rightarrow> year \<Rightarrow> classroom list \<Rightarrow> generator \<times> demand list" where
  "scheduleLecturesFallback g pool targetYear yearClassrooms =
     (case find (\<lambda>c. assignedYear c = targetYear) yearClassrooms of
        None \<Rightarrow> (g, pool)
      | Some assignedClassroom \<Rightarrow>
          foldl (direct_lecture_cell ''fb-'' False targetYear (cls_name assignedClassroom))
            (g, pool) (List.product DAYS (relevantTheorySlots g targetYear)))"

text \<open>The loops of the fill-in pass end as soon as the pool is empty.\<close>

fun fill_cells ::
  "year \<Rightarrow> string \<Rightarrow> (string \<times> string) list \<Rightarrow> generator \<times> demand list
   \<Rightarrow> generator \<times> demand list" where
  "fill_cells targetYear roomName [] st = st"
| "fill_cells targetYear roomName (cell # cells) st =
     (if snd st = [] then st
      else fill_cells targetYear roomName cells
             (direct_lecture_cell ''fill-'' True targetYear roomName st cell))"

definition fillRemainingLectureSlots ::
  "generator \<Rightarrow> demand list \<Rightarrow> year \<Rightarrow> classroom list \<Rightarrow> generator \<times> demand list" where
  "fillRemainingLectureSlots g pool targetYear yearClassrooms =
     (if length pool = 0 then (g, pool)
      else case find (\<lambda>c. assignedYear c = targetYear) yearClassrooms of
             None \<Rightarrow> (g, pool)
           | Some assignedClassroom \<Rightarrow>
               fill_cells targetYear (cls_name assignedClassroom)
                 (List.product DAYS ALL_THEORY_SLOTS) (g, pool))"

subsection \<open>Greedy Scheduler: advisory placements\<close>

definition getBatchForLab :: "generator \<Rightarrow> subject \<Rightarrow> year \<Rightarrow> batch" where
  "getBatchForLab g subj y =
     (let existingBatches = List.map_filter s_batch
            (filter (\<lambda>s. str_includes (s_subject s) (sub_name subj) \<and> s_type s = Lab \<and>
                         s_year s = y) (generatedSlots g))
      in case find (\<lambda>b. b \<notin> set existingBatches) [BatchA, BatchB, BatchC] of
           None \<Rightarrow> BatchA
         | Some availableBatch \<Rightarrow> availableBatch)"

text \<open>\<open>createSlotFromRecommendation\<close>: the batch follows the recommended type, the type
  of the slot follows the time band.\<close>

definition createSlotFromRecommendation ::
  "generator \<Rightarrow> recommendation \<Rightarrow> subject \<Rightarrow> year \<Rightarrow> int \<Rightarrow> slot" where
  "createSlotFromRecommendation g r subj targetYear targetSemester =
     (let b = (if rec_type r = Lab
               then (case rec_batch r of
                       Some x \<Rightarrow> Some x
                     | None \<Rightarrow> Some (getBatchForLab g subj targetYear))
               else None);
          ty = (if rec_time r \<in> set MORNING_LAB_SLOTS \<or> rec_time r \<in> set AFTERNOON_LAB_SLOTS
                then Lab else Theory)
      in \<lparr> s_id = year_str targetYear @ ''-'' @ (if ty = Lab then batch_opt_str b else []) @ ''-'' @
                 sub_code subj @ ''-'' @ rec_day r @ ''-'' @ rec_time r,
           s_day = rec_day r, s_time = rec_time r,
           s_subject = (if ty = Lab then sub_name subj @ '' Lab'' else sub_name subj),
           s_faculty = getFacultyName subj, s_room = rec_room r, s_type = ty,
           s_year = targetYear, s_batch = b, s_duration = getSlotDuration (rec_time r),
           s_semester = targetSemester, isFillIn = False \<rparr>)"

definition apply_recommendation ::
  "subject list \<Rightarrow> year \<Rightarrow> int \<Rightarrow> generator \<Rightarrow> recommendation \<Rightarrow> generator" where
  "apply_recommendation relevantSubjects targetYear targetSemester g r =
     (if confidence r \<ge> 70 then
        (case find (\<lambda>s. sub_name s = rec_subject r) relevantSubjects of
           None \<Rightarrow> g
         | Some subj \<Rightarrow>
             if isSlotAvailable g (rec_day r) (rec_time r) (rec_room r) then
               (let sl = createSlotFromRecommendation g r subj targetYear targetSemester
                in if validateSlot g sl then push_slot g sl else g)
             else g)
      else g)"

subsection \<open>Reporting and the final consistency sweep\<close>

text \<open>A \<open>Map\<close>, or an object whose keys are never array indices, as an association list
  in insertion order: \<open>assoc_upd k f d\<close> is \<open>m.set(k, f(m.get(k) || d))\<close> for a value
  that is never falsy once stored.\<close>

fun assoc_upd :: "'k \<Rightarrow> ('v \<Rightarrow> 'v) \<Rightarrow> 'v \<Rightarrow> ('k \<times> 'v) list \<Rightarrow> ('k \<times> 'v) list" where
  "assoc_upd k f d [] = [(k, f d)]"
| "assoc_upd k f d (p # ps) =
     (if fst p = k then (k, f (snd p)) # ps else p # assoc_upd k f d ps)"

definition lecture_key :: "demand \<Rightarrow> string" where
  "lecture_key lec = sub_name (d_subject lec) @ '' ('' @ year_str (d_year lec) @ '')''"

definition reportUnscheduled :: "generator \<Rightarrow> demand list \<Rightarrow> demand list \<Rightarrow> generator" where
  "reportUnscheduled g lectures labPool =
     (let g1 = foldl (\<lambda>g l. push_conflict g
                  \<lparr> c_type = Error,
                    c_message = MsgUnscheduledLab (sub_name (d_subject l)) (d_year l) (d_batch l),
                    c_severity = High,
                    affectedEntities = [sub_name (d_subject l)] \<rparr>) g labPool;
          unscheduledCounts =
            foldl (\<lambda>m lec. assoc_upd (lecture_key lec) (\<lambda>n. n + 1) (0::nat) m) [] lectures
      in foldl (\<lambda>g p. push_conflict g
                  \<lparr> c_type = Warning, c_message = MsgUnscheduledLectures (snd p) (fst p),
                    c_severity = Medium, affectedEntities = [fst p] \<rparr>) g1 unscheduledCounts)"

definition slot_key :: "slot \<Rightarrow> string" where
  "slot_key sl =
     s_subject sl @ ''-'' @ year_str (s_year sl) @
       (case s_batch sl of None \<Rightarrow> [] | Some b \<Rightarrow> ''-'' @ batch_str b)"

text \<open>The conflicts that \<open>validateCriticalConstraints\<close> pushes for one group of slots.\<close>

definition critical_conflicts :: "generator \<Rightarrow> string \<times> slot list \<Rightarrow> conflict list" where
  "critical_conflicts g grp =
     (case snd grp of
        [] \<Rightarrow> []
      | sl # others \<Rightarrow>
        (let subjectKey = fst grp;
             theorySlots = filter (\<lambda>s. s_type s = Theory) (snd grp);
             labSlots = filter (\<lambda>s. s_type s = Lab) (snd grp);
             originalSubject = find (\<lambda>s. (sub_name s = s_subject sl \<or>
                                            sub_name s @ '' Lab'' = s_subject sl) \<and>
                                           sub_year s = s_year sl) (subjects g);
             expectedTheoryHours =
               (case originalSubject of None \<Rightarrow> 0 | Some s \<Rightarrow> theoryHours s);
             under = (if expectedTheoryHours > 0 \<and> int (length theorySlots) < expectedTheoryHours
                      then [\<lparr> c_type = Warning,
                              c_message = MsgOnlyTheory subjectKey (length theorySlots)
                                            expectedTheoryHours,
                              c_severity = Medium, affectedEntities = [subjectKey] \<rparr>]
                      else []);
             over = (if int (length theorySlots) > expectedTheoryHours
                     then [\<lparr> c_type = Error,
                             c_message = MsgHasTheory subjectKey (length theorySlots)
                                           expectedTheoryHours,
                             c_severity = High, affectedEntities = [subjectKey] \<rparr>]
                     else []);
             sortedTheorySlots =
               sort_key (\<lambda>s. (indexOf DAYS (s_day s), indexOf ALL_THEORY_SLOTS (s_time s)))
                 theorySlots;
             consecutive = concat (map (\<lambda>p.
                 (let current = fst p; next = snd p;
                      currentIndex = indexOf ALL_THEORY_SLOTS (s_time current);
                      nextIndex = indexOf ALL_THEORY_SLOTS (s_time next)
                  in if s_day current = s_day next \<and> currentIndex \<noteq> -1 \<and>
                        nextIndex = currentIndex + 1
                     then [\<lparr> c_type = Error,
                             c_message = MsgConsecutive subjectKey (s_day current)
                                           (s_time current) (s_time next),
                             c_severity = High,
                             affectedEntities = [subjectKey, s_day current] \<rparr>]
                     else [])) (adjacent_pairs sortedTheorySlots));
             expectedLabSessions =
               ceil_half (case originalSubject of None \<Rightarrow> 0 | Some s \<Rightarrow> labHours s);
             labChecks =
               (if length labSlots > 0 then
                  (if expectedLabSessions > 0 \<and> int (length labSlots) < expectedLabSessions
                   then [\<lparr> c_type = Warning,
                           c_message = MsgOnlyLab subjectKey (length labSlots) expectedLabSessions,
                           c_severity = Medium, affectedEntities = [subjectKey] \<rparr>]
                   else []) @
                  (if int (length labSlots) > expectedLabSessions
                   then [\<lparr> c_type = Error,
                           c_message = MsgHasLab subjectKey (length labSlots) expectedLabSessions,
                           c_severity = High, affectedEntities = [subjectKey] \<rparr>]
                   else []) @
                  (if expectedLabSessions > 0 then
                     concat (map (\<lambda>b.
                       if Some b \<notin> set (map s_batch labSlots)
                       then [\<lparr> c_type = Error, c_message = MsgLabMissing subjectKey b,
                               c_severity = High,
                               affectedEntities = [subjectKey, ''Batch '' @ batch_str b] \<rparr>]
                       else []) [BatchA, BatchB, BatchC])
                   else [])
                else [])
         in under @ over @ consecutive @ labChecks))"

definition validateCriticalConstraints :: "generator \<Rightarrow> generator" where
  "validateCriticalConstraints g =
     (let slotsBySubject =
            foldl (\<lambda>m sl. assoc_upd (slot_key sl) (\<lambda>xs. xs @ [sl]) [] m) [] (generatedSlots g)
      in g \<lparr> conflicts := conflicts g @ concat (map (critical_conflicts g) slotsBySubject) \<rparr>)"

definition validateFacultyWorkload :: "generator \<Rightarrow> generator" where
  "validateFacultyWorkload g =
     (let facultyWorkload =
            foldl (\<lambda>m sl. assoc_upd (s_faculty sl)
                     (assoc_upd (s_day sl) (\<lambda>h. h + s_duration sl) 0) [] m) [] (generatedSlots g)
      in g \<lparr> conflicts := conflicts g @ concat (map (\<lambda>entry.
                (case find (\<lambda>f. fac_name f = fst entry) (facultyList g) of
                   None \<Rightarrow> []
                 | Some f \<Rightarrow> concat (map (\<lambda>dh.
                     if snd dh > maxHoursPerDay f
                     then [\<lparr> c_type = Warning,
                             c_message = MsgFacultyLoad (fst entry) (snd dh) (maxHoursPerDay f)
                                           (fst dh),
                             c_severity = Medium, affectedEntities = [fst entry, fst dh] \<rparr>]
                     else []) (snd entry)))) facultyWorkload) \<rparr>)"

text \<open>\<open>validateRoomUtilization\<close>. The rate \<open>used / total * 100\<close> is below 50 exactly
  when \<open>used * 100 < 50 * total\<close>; the message keeps the two counts in place of the
  printed rate.\<close>

definition validateRoomUtilization :: "generator \<Rightarrow> generator" where
  "validateRoomUtilization g =
     (let roomUsage = foldl (\<lambda>m sl. assoc_upd (s_room sl) (\<lambda>n. n + 1) (0::nat) m) []
                        (generatedSlots g);
          totalRooms = length (classrooms g) + length (labs g);
          usedRooms = length roomUsage;
          low = (if totalRooms > 0 then usedRooms * 100 < 50 * totalRooms else True);
          lowConflict = (if low
                         then [\<lparr> c_type = Warning,
                                 c_message = MsgLowRoomUtilization usedRooms totalRooms,
                                 c_severity = Medium,
                                 affectedEntities = [''Room Utilization''] \<rparr>]
                         else []);
          high = concat (map (\<lambda>p.
                   if snd p > 20
                   then [\<lparr> c_type = Warning, c_message = MsgHighUsage (fst p) (snd p),
                           c_severity = Medium, affectedEntities = [fst p] \<rparr>]
                   else []) roomUsage)
      in g \<lparr> conflicts := conflicts g @ lowConflict @ high \<rparr>)"

definition validateAndOptimize :: "generator \<Rightarrow> generator" where
  "validateAndOptimize g =
     (let g1 = (case analysisResult g of
                  None \<Rightarrow> g
                | Some ar \<Rightarrow> g \<lparr> conflicts := conflicts g @ a_conflicts ar \<rparr>)
      in validateRoomUtilization (validateFacultyWorkload (validateCriticalConstraints g1)))"

subsection \<open>Statistics and the consistency hash\<close>

text \<open>What the run takes from its host: the collation \<open>String.prototype.localeCompare\<close>,
  the library digest \<open>CryptoJS.SHA256\<close> composed with \<open>JSON.stringify\<close>, and the
  reading of the clock \<open>Date.now()\<close>.\<close>

type_synonym canon = "string \<times> string \<times> string \<times> string \<times> string \<times> slot_type \<times> year \<times> batch option"

record host =
  localeCompare :: "string \<Rightarrow> string \<Rightarrow> int"
  sha256_json :: "year \<times> int \<times> canon list \<Rightarrow> string"
  date_now :: nat

text \<open>\<open>Array.prototype.sort(cmp)\<close> is stable. For a comparator that is a total
  preorder every stable sort returns the list that this insertion sort returns.\<close>

fun insert_by :: "('a \<Rightarrow> 'a \<Rightarrow> int) \<Rightarrow> 'a \<Rightarrow> 'a list \<Rightarrow> 'a list" where
  "insert_by cmp x [] = [x]"
| "insert_by cmp x (y # ys) = (if cmp x y < 0 then x # y # ys else y # insert_by cmp x ys)"

definition sort_by :: "('a \<Rightarrow> 'a \<Rightarrow> int) \<Rightarrow> 'a list \<Rightarrow> 'a list" where
  "sort_by cmp xs = foldl (\<lambda>acc x. insert_by cmp x acc) [] xs"

definition canon_of :: "slot \<Rightarrow> canon" where
  "canon_of s = (s_day s, s_time s, s_subject s, s_faculty s, s_room s, s_type s, s_year s, s_batch s)"

definition canon_key :: "canon \<Rightarrow> string" where
  "canon_key c = (case c of (d, t, subj, rest) \<Rightarrow> d @ ''-'' @ t @ ''-'' @ subj)"

text \<open>The decimal digits of a natural number, as a template literal prints it.\<close>

fun show_nat :: "nat \<Rightarrow> string" where
  "show_nat n =
     (if n < 10 then [char_of (48 + n)]
      else show_nat (n div 10) @ [char_of (48 + n mod 10)])"

declare show_nat.simps [simp del]

text \<open>The two utilisation figures are \<open>Math.round(used / total * 100)\<close>, computed in
  floating point, and \<open>0\<close> for no room or no faculty at all. The model keeps the pair
  \<open>(used, total)\<close>.\<close>

record stats =
  totalSlots :: nat
  theorySlots :: nat
  labSlots :: nat
  facultyUtilization :: "nat \<times> nat"
  roomUtilization :: "nat \<times> nat"
  st_constraintScore :: int
  consistencyHash :: string

definition calculateGenerationStats :: "host \<Rightarrow> generator \<Rightarrow> year \<Rightarrow> int \<Rightarrow> stats" where
  "calculateGenerationStats h g targetYear targetSemester =
     (let facultyInvolved = remdups (map s_faculty (generatedSlots g));
          roomsUsed = remdups (map s_room (generatedSlots g));
          totalRooms = length (classrooms g) + length (labs g);
          estimate = (if list_ex (\<lambda>c. c_type c = Error) (conflicts g) then 50 else 75);
          cs = (case analysisResult g of
                  None \<Rightarrow> estimate
                | Some ar \<Rightarrow> if constraintScore ar = 0 then estimate else constraintScore ar);
          consistencyData =
            (targetYear, targetSemester,
             sort_by (\<lambda>a b. localeCompare h (canon_key a) (canon_key b))
               (map canon_of (generatedSlots g)))
      in \<lparr> totalSlots = length (generatedSlots g),
           theorySlots = length (filter (\<lambda>s. s_type s = Theory) (generatedSlots g)),
           labSlots = length (filter (\<lambda>s. s_type s = Lab) (generatedSlots g)),
           facultyUtilization = (length facultyInvolved, length (facultyList g)),
           roomUtilization = (length roomsUsed, totalRooms),
           st_constraintScore = cs,
           consistencyHash = sha256_json h consistencyData \<rparr>)"

definition getFallbackAnalysisResult :: "generator \<Rightarrow> analysis" where
  "getFallbackAnalysisResult g =
     \<lparr> a_isValid = (\<not> list_ex (\<lambda>c. c_type c = Error) (conflicts g)),
       a_conflicts = map (\<lambda>c. c \<lparr> c_type := (if c_type c = Success then Info else c_type c) \<rparr>)
                       (conflicts g),
       optimizationSuggestions = [''Fallback used. Consider AI for optimization.'',
                                  ''Review unscheduled items.''],
       constraintScore = 60,
       recommendedSlots = [] \<rparr>"

record result =
  r_slots :: "slot list"
  r_conflicts :: "conflict list"
  r_analysisResult :: analysis
  generationStats :: stats

definition createEmptyResult :: "host \<Rightarrow> generator \<Rightarrow> result" where
  "createEmptyResult h g =
     \<lparr> r_slots = [],
       r_conflicts = conflicts g,
       r_analysisResult = (case analysisResult g of
                             Some ar \<Rightarrow> ar
                           | None \<Rightarrow> getFallbackAnalysisResult g),
       generationStats =
         \<lparr> totalSlots = 0, theorySlots = 0, labSlots = 0, facultyUtilization = (0, 0),
           roomUtilization = (0, 0), st_constraintScore = 0,
           consistencyHash = ''error-'' @ show_nat (date_now h) \<rparr> \<rparr>"

subsection \<open>The two construction paths and the top-level call\<close>

text \<open>\<open>generateSlotsWithAI\<close>. An exception leaves the generator as it is at that
  moment, so the error comes with the generator.\<close>

definition generateSlotsWithAI ::
  "generator \<Rightarrow> year \<Rightarrow> int \<Rightarrow> (js_error \<times> generator) + generator" where
  "generateSlotsWithAI g targetYear targetSemester =
     (case analysisResult g of
        None \<Rightarrow> Inl (AnalysisNotAvailable, g)
      | Some ar \<Rightarrow>
        (let relevantSubjects = filter (\<lambda>s. sub_year s = targetYear \<and>
                                             sub_semester s = targetSemester) (subjects g);
             yearClassrooms = filter (\<lambda>c. assignedYear c = targetYear) (classrooms g);
             g1 = foldl (apply_recommendation relevantSubjects targetYear targetSemester) g
                    (recommendedSlots ar)
         in case createLecturePool relevantSubjects of
              Inl e \<Rightarrow> Inl (e, g1)
            | Inr unscheduledLectures \<Rightarrow>
              (case createLabPool relevantSubjects of
                 Inl e \<Rightarrow> Inl (e, g1)
               | Inr unscheduledLabs \<Rightarrow>
                 (case scheduleLabsConcurrently g1 unscheduledLabs targetYear AiMode of
                    (g2, labs2) \<Rightarrow>
                    (case scheduleLecturesWithAI g2 unscheduledLectures targetYear yearClassrooms of
                       (g3, lectures3) \<Rightarrow>
                       (case fillRemainingLectureSlots g3 lectures3 targetYear yearClassrooms of
                          (g4, lectures4) \<Rightarrow> Inr (reportUnscheduled g4 lectures4 labs2)))))))"

text \<open>\<open>fallbackGeneration\<close>: the pre-check, the three passes, and the \<open>catch\<close> that
  turns an exception into the empty result.\<close>

definition fallback_failed :: "host \<Rightarrow> generator \<Rightarrow> js_error \<Rightarrow> result" where
  "fallback_failed h g e =
     createEmptyResult h (push_conflict g
       \<lparr> c_type = Error, c_message = MsgFallbackFailed e, c_severity = High,
         affectedEntities = [] \<rparr>)"

definition fallbackGeneration :: "host \<Rightarrow> generator \<Rightarrow> year \<Rightarrow> int \<Rightarrow> result" where
  "fallbackGeneration h g targetYear targetSemester =
     (let relevantSubjects = filter (\<lambda>s. sub_year s = targetYear \<and>
                                          sub_semester s = targetSemester) (subjects g);
          yearClassrooms = filter (\<lambda>c. assignedYear c = targetYear) (classrooms g)
      in if length relevantSubjects = 0 \<or> length yearClassrooms = 0 then
           (let g1 = (if length relevantSubjects = 0
                      then push_conflict g
                             \<lparr> c_type = Error, c_message = MsgNoSubjects targetYear targetSemester,
                               c_severity = High, affectedEntities = [] \<rparr>
                      else g);
                g2 = (if length yearClassrooms = 0
                      then push_conflict g1
                             \<lparr> c_type = Error, c_message = MsgNoClassrooms targetYear,
                               c_severity = High, affectedEntities = [] \<rparr>
                      else g1)
            in createEmptyResult h g2)
         else
           (case createLecturePool relevantSubjects of
              Inl e \<Rightarrow> fallback_failed h g e
            | Inr unscheduledLectures \<Rightarrow>
              (case createLabPool relevantSubjects of
                 Inl e \<Rightarrow> fallback_failed h g e
               | Inr unscheduledLabs \<Rightarrow>
                 (case scheduleLabsConcurrently g unscheduledLabs targetYear FallbackMode of
                    (g1, labs1) \<Rightarrow>
                    (case scheduleLecturesFallback g1 unscheduledLectures targetYear yearClassrooms of
                       (g2, lectures2) \<Rightarrow>
                       (case fillRemainingLectureSlots g2 lectures2 targetYear yearClassrooms of
                          (g3, lectures3) \<Rightarrow>
                          (let g4 = validateCriticalConstraints
                                      (reportUnscheduled g3 lectures3 labs1)
                           in \<lparr> r_slots = generatedSlots g4,
                                r_conflicts = conflicts g4,
                                r_analysisResult = getFallbackAnalysisResult g4,
                                generationStats =
                                  calculateGenerationStats h g4 targetYear targetSemester \<rparr>)))))))"

text \<open>\<open>generateTimetable\<close>. \<open>advisor\<close> is what the awaited advisory call does: it
  throws (\<open>Inl\<close>) or returns an analysis (\<open>Inr\<close>). Every exception of the first path
  ends in \<open>fallbackGeneration\<close>, which returns a result in every case.\<close>

definition generateTimetable ::
  "host \<Rightarrow> js_error + analysis \<Rightarrow> generator \<Rightarrow> year \<Rightarrow> int \<Rightarrow> result" where
  "generateTimetable h advisor g0 targetYear targetSemester =
     (let g = g0 \<lparr> generatedSlots := [], conflicts := [] \<rparr>
      in case advisor of
           Inl e \<Rightarrow> fallbackGeneration h g targetYear targetSemester
         | Inr ar \<Rightarrow>
           (case generateSlotsWithAI (g \<lparr> analysisResult := Some ar \<rparr>) targetYear targetSemester of
              Inl (e, g') \<Rightarrow> fallbackGeneration h g' targetYear targetSemester
            | Inr g1 \<Rightarrow>
              (let g2 = validateAndOptimize g1
               in \<lparr> r_slots = generatedSlots g2,
                    r_conflicts = conflicts g2,
                    r_analysisResult = ar,
                    generationStats = calculateGenerationStats h g2 targetYear targetSemester \<rparr>)))"

subsection \<open>The plain generator\<close>

text \<open>\<open>TimetableGenerator\<close> has its own time grid. Its \<open>doTimesOverlap\<close> is the body of
  the \<open>try\<close> block above, which never throws, so it is the same function; its
  \<open>isFacultyAvailable\<close>, \<open>isBatchAvailable\<close>, \<open>getAvailableRooms\<close>,
  \<open>getFacultyName\<close> and pool builders have the same text as those above.\<close>

definition TG_DAYS :: "string list" where
  "TG_DAYS = [''Monday'', ''Tuesday'', ''Wednesday'', ''Thursday'', ''Friday'']"

definition THEORY_SLOTS :: "string list" where
  "THEORY_SLOTS =
     [''8:00-9:00'', ''9:00-10:00'', ''10:15-11:15'', ''11:15-12:15'',
      ''1:15-2:15'', ''2:15-3:15'', ''3:15-4:15'', ''4:15-5:15'']"

definition LAB_SLOTS :: "string list" where
  "LAB_SLOTS = [''1:15-3:15'', ''3:15-5:15'']"

definition tg_hadConsecutiveLabForBatch ::
  "generator \<Rightarrow> year \<Rightarrow> batch option \<Rightarrow> string \<Rightarrow> string \<Rightarrow> bool" where
  "tg_hadConsecutiveLabForBatch g y b d t =
     (t = ''3:15-5:15'' \<and>
      list_ex (\<lambda>s. s_type s = Lab \<and> s_year s = y \<and> s_batch s = b \<and> s_day s = d \<and>
                   s_time s = ''1:15-3:15'') (generatedSlots g))"

definition tg_hadConsecutiveLabForFaculty :: "generator \<Rightarrow> string \<Rightarrow> string \<Rightarrow> string \<Rightarrow> bool" where
  "tg_hadConsecutiveLabForFaculty g n d t =
     (t = ''3:15-5:15'' \<and>
      list_ex (\<lambda>s. s_type s = Lab \<and> s_faculty s = n \<and> s_day s = d \<and>
                   s_time s = ''1:15-3:15'') (generatedSlots g))"

definition wasPreviousSlotSameSubject ::
  "generator \<Rightarrow> subject \<Rightarrow> year \<Rightarrow> string \<Rightarrow> string \<Rightarrow> bool" where
  "wasPreviousSlotSameSubject g subj y d t =
     (let currentIndex = indexOf THEORY_SLOTS t
      in if currentIndex \<le> 0 \<or> t = ''1:15-2:15'' then False
         else (case at_index THEORY_SLOTS (currentIndex - 1) of
                 None \<Rightarrow> False
               | Some previousTime \<Rightarrow>
                   list_ex (\<lambda>s. s_year s = y \<and> s_day s = d \<and> s_subject s = sub_name subj \<and>
                                s_time s = previousTime) (generatedSlots g)))"

definition hasLectureAlreadyOccurredToday :: "generator \<Rightarrow> subject \<Rightarrow> year \<Rightarrow> string \<Rightarrow> bool" where
  "hasLectureAlreadyOccurredToday g subj y d =
     list_ex (\<lambda>s. s_type s = Theory \<and> s_day s = d \<and> s_year s = y \<and> s_subject s = sub_name subj)
       (generatedSlots g)"

definition tg_lab_slot :: "demand \<Rightarrow> string \<Rightarrow> string \<Rightarrow> string \<Rightarrow> slot" where
  "tg_lab_slot candidate d t roomName =
     \<lparr> s_id = year_str (d_year candidate) @ ''-'' @ batch_opt_str (d_batch candidate) @ ''-'' @
              sub_code (d_subject candidate) @ ''-'' @ d @ ''-'' @ t,
       s_day = d, s_time = t, s_subject = sub_name (d_subject candidate) @ '' Lab'',
       s_faculty = getFacultyName (d_subject candidate), s_room = roomName, s_type = Lab,
       s_year = d_year candidate, s_batch = d_batch candidate, s_duration = 2,
       s_semester = sub_semester (d_subject candidate), isFillIn = False \<rparr>"

text \<open>The loop over the candidates of one cell: each takes the next free room
  (\<open>availableLabRooms.shift()\<close>) and is pushed without any further check.\<close>

fun tg_lab_candidates ::
  "string \<Rightarrow> string \<Rightarrow> demand list \<Rightarrow> generator \<times> demand list \<times> string list
   \<Rightarrow> generator \<times> demand list \<times> string list" where
  "tg_lab_candidates d t [] st = st"
| "tg_lab_candidates d t (candidate # rest) (g, pool, availableLabRooms) =
     (case availableLabRooms of
        [] \<Rightarrow> (g, pool, availableLabRooms)
      | labRoom # rooms \<Rightarrow>
          tg_lab_candidates d t rest
            (push_slot g (tg_lab_slot candidate d t labRoom), remove_ref candidate pool, rooms))"

definition tg_lab_candidate_ok :: "generator \<Rightarrow> string \<Rightarrow> string \<Rightarrow> demand \<Rightarrow> bool" where
  "tg_lab_candidate_ok g d t c =
     (isBatchAvailable g (d_year c) (d_batch c) d t \<and>
      isFacultyAvailable g (getFacultyName (d_subject c)) d t \<and>
      \<not> tg_hadConsecutiveLabForFaculty g (getFacultyName (d_subject c)) d t \<and>
      \<not> tg_hadConsecutiveLabForBatch g (d_year c) (d_batch c) d t)"

definition tg_lab_cell :: "generator \<times> demand list \<Rightarrow> string \<times> string \<Rightarrow> generator \<times> demand list" where
  "tg_lab_cell st cell =
     (case st of (g, pool) \<Rightarrow>
        (let d = fst cell; t = snd cell;
             availableLabRooms = getAvailableRooms g d t Lab;
             candidates = filter (tg_lab_candidate_ok g d t) pool
         in case tg_lab_candidates d t candidates (g, pool, availableLabRooms) of
              (g', pool', rooms') \<Rightarrow> (g', pool')))"

definition scheduleLabs :: "generator \<Rightarrow> demand list \<Rightarrow> generator \<times> demand list" where
  "scheduleLabs g pool = foldl tg_lab_cell (g, pool) (List.product TG_DAYS LAB_SLOTS)"

definition tg_lecture_cell ::
  "generator \<times> demand list \<Rightarrow> string \<times> string \<times> year \<Rightarrow> generator \<times> demand list" where
  "tg_lecture_cell st cell =
     (case st of (g, pool) \<Rightarrow>
      (case cell of (d, t, y) \<Rightarrow>
        if \<not> isBatchAvailable g y None d t then st
        else
          (case find (\<lambda>c. assignedYear c = y) (classrooms g) of
             None \<Rightarrow> st
           | Some assignedClassroom \<Rightarrow>
               (case findIndex (\<lambda>lec. d_year lec = y \<and>
                        isFacultyAvailable g (getFacultyName (d_subject lec)) d t \<and>
                        \<not> wasPreviousSlotSameSubject g (d_subject lec) y d t \<and>
                        \<not> hasLectureAlreadyOccurredToday g (d_subject lec) y d) pool of
                  None \<Rightarrow> st
                | Some bestFitIndex \<Rightarrow>
                    (let lectureToSchedule = pool ! bestFitIndex
                     in (push_slot g
                           \<lparr> s_id = year_str y @ ''-'' @ sub_code (d_subject lectureToSchedule) @
                                    ''-'' @ d @ ''-'' @ t,
                             s_day = d, s_time = t,
                             s_subject = sub_name (d_subject lectureToSchedule),
                             s_faculty = getFacultyName (d_subject lectureToSchedule),
                             s_room = cls_name assignedClassroom, s_type = Theory, s_year = y,
                             s_batch = None, s_duration = 1,
                             s_semester = sub_semester (d_subject lectureToSchedule),
                             isFillIn = False \<rparr>,
                         splice_out bestFitIndex pool))))))"

definition scheduleLectures :: "generator \<Rightarrow> demand list \<Rightarrow> generator \<times> demand list" where
  "scheduleLectures g pool =
     foldl tg_lecture_cell (g, pool)
       (concat (map (\<lambda>d. concat (map (\<lambda>t. map (\<lambda>y. (d, t, y)) [SE, TE, BE]) THEORY_SLOTS))
          TG_DAYS))"

definition tg_reportUnscheduled :: "generator \<Rightarrow> demand list \<Rightarrow> demand list \<Rightarrow> generator" where
  "tg_reportUnscheduled g lectures labPool =
     (let g1 = foldl (\<lambda>g l. push_conflict g
                  \<lparr> c_type = Error,
                    c_message = MsgCouldNotScheduleLab (sub_name (d_subject l)) (d_year l)
                                  (d_batch l),
                    c_severity = High,
                    affectedEntities = [sub_name (d_subject l),
                                        year_str (d_year l) @ ''-'' @ batch_opt_str (d_batch l)] \<rparr>)
                g labPool;
          unscheduledCounts =
            foldl (\<lambda>m lec. assoc_upd (lecture_key lec) (\<lambda>n. n + 1) (0::nat) m) [] lectures
      in foldl (\<lambda>g p. push_conflict g
                  \<lparr> c_type = Warning, c_message = MsgCouldNotScheduleLectures (snd p) (fst p),
                    c_severity = Medium, affectedEntities = [fst p] \<rparr>) g1 unscheduledCounts)"

text \<open>\<open>TimetableGenerator.generateTimetable\<close> has no \<open>try\<close>: an exception of a pool
  builder leaves the call.\<close>

definition tg_generateTimetable :: "generator \<Rightarrow> js_error + slot list \<times> conflict list" where
  "tg_generateTimetable g0 =
     (let g = g0 \<lparr> generatedSlots := [], conflicts := [] \<rparr>
      in case createLecturePool (subjects g) of
           Inl e \<Rightarrow> Inl e
         | Inr unscheduledLectures \<Rightarrow>
           (case createLabPool (subjects g) of
              Inl e \<Rightarrow> Inl e
            | Inr unscheduledLabs \<Rightarrow>
              (case scheduleLabs g unscheduledLabs of
                 (g1, labs1) \<Rightarrow>
                 (case scheduleLectures g1 unscheduledLectures of
                    (g2, lectures2) \<Rightarrow>
                    (let g3 = tg_reportUnscheduled g2 lectures2 labs1
                     in Inr (generatedSlots g3, conflicts g3))))))"

subsection \<open>Post-hoc Optimizer\<close>

definition isFacultyAvailableForSwap ::
  "slot list \<Rightarrow> string \<Rightarrow> string \<Rightarrow> string \<Rightarrow> string \<Rightarrow> bool" where
  "isFacultyAvailableForSwap slots facultyName d t excludeSlotId =
     (\<not> list_ex (\<lambda>s. s_id s \<noteq> excludeSlotId \<and> s_faculty s = facultyName \<and> s_day s = d \<and>
                     doTimesOverlap (s_time s) t) slots)"

definition wouldCreateConsecutive ::
  "slot list \<Rightarrow> string \<Rightarrow> year \<Rightarrow> string \<Rightarrow> string \<Rightarrow> string \<Rightarrow> bool" where
  "wouldCreateConsecutive slots subjectName y d t excludeSlotId =
     (let timeIndex = indexOf ALL_THEORY_SLOTS t
      in if timeIndex = -1 then False
         else
           (let previousTime = (if timeIndex > 0 then at_index ALL_THEORY_SLOTS (timeIndex - 1)
                                else None);
                nextTime = (if timeIndex < int (length ALL_THEORY_SLOTS) - 1
                            then at_index ALL_THEORY_SLOTS (timeIndex + 1) else None);
                taken = (\<lambda>neighbour.
                  case neighbour of
                    None \<Rightarrow> False
                  | Some nt \<Rightarrow> nt \<noteq> [] \<and>
                      list_ex (\<lambda>s. s_id s \<noteq> excludeSlotId \<and> s_year s = y \<and> s_day s = d \<and>
                                   s_type s = Theory \<and> s_time s = nt \<and> s_subject s = subjectName)
                        slots)
            in if taken previousTime then True else if taken nextTime then True else False))"

text \<open>\<open>Object.entries\<close> lists the keys that are array indices first, in ascending order,
  and then the other keys in insertion order.\<close>

definition is_array_index :: "string \<Rightarrow> bool" where
  "is_array_index k =
     (k \<noteq> [] \<and> list_all is_digit k \<and> (k = ''0'' \<or> hd k \<noteq> CHR ''0'') \<and>
      digits_val k < 2 ^ 32 - 1)"

definition entries_order :: "string list \<Rightarrow> string list" where
  "entries_order ks =
     sort_key digits_val (filter is_array_index ks) @ filter (\<lambda>k. \<not> is_array_index k) ks"

text \<open>A subject whose name is a property of \<open>Object.prototype\<close> never gets a numeric
  count in the object \<open>subjectCounts\<close>, so it is never a duplicate.\<close>

definition prototype_keys :: "string list" where
  "prototype_keys =
     [''__proto__'', ''constructor'', ''hasOwnProperty'', ''isPrototypeOf'',
      ''propertyIsEnumerable'', ''toLocaleString'', ''toString'', ''valueOf'',
      ''__defineGetter__'', ''__defineSetter__'', ''__lookupGetter__'', ''__lookupSetter__'']"

definition duplicateSubjects :: "slot list \<Rightarrow> string list" where
  "duplicateSubjects dailySlots =
     (let names = map fst (foldl (\<lambda>m sl. assoc_upd (s_subject sl) (\<lambda>n. n + 1) (0::nat) m) []
                     dailySlots)
      in filter (\<lambda>k. k \<notin> set prototype_keys \<and>
                     length (filter (\<lambda>sl. s_subject sl = k) dailySlots) > 1)
           (entries_order (filter (\<lambda>k. k \<noteq> ''__proto__'') names)))"

definition slotsByDay :: "slot list \<Rightarrow> year \<Rightarrow> string \<Rightarrow> slot list" where
  "slotsByDay slots targetYear d =
     sort_key (\<lambda>s. indexOf ALL_THEORY_SLOTS (s_time s))
       (filter (\<lambda>s. s_day s = d) (filter (\<lambda>s. s_year s = targetYear \<and> s_type s = Theory) slots))"

text \<open>A loop that ends at the first success.\<close>

fun first_some :: "('a \<Rightarrow> 'b option) \<Rightarrow> 'a list \<Rightarrow> 'b option" where
  "first_some f [] = None"
| "first_some f (x # xs) = (case f x of Some y \<Rightarrow> Some y | None \<Rightarrow> first_some f xs)"

text \<open>The validity checks for one candidate; on success the positions of the two slots
  in \<open>generatedSlots\<close>, found by their ids.\<close>

definition swap_candidate ::
  "slot list \<Rightarrow> year \<Rightarrow> string \<Rightarrow> slot \<Rightarrow> string \<Rightarrow> string \<Rightarrow> slot \<Rightarrow> (nat \<times> nat) option" where
  "swap_candidate slots targetYear d slotToMove subjectToMove targetDay candidateSlot =
     (if s_subject candidateSlot = subjectToMove then None
      else if \<not> isFacultyAvailableForSwap slots (s_faculty slotToMove) targetDay
                  (s_time candidateSlot) (s_id candidateSlot) then None
      else if \<not> isFacultyAvailableForSwap slots (s_faculty candidateSlot) d
                  (s_time slotToMove) (s_id slotToMove) then None
      else if wouldCreateConsecutive slots subjectToMove targetYear targetDay
                (s_time candidateSlot) (s_id candidateSlot) then None
      else if wouldCreateConsecutive slots (s_subject candidateSlot) targetYear d
                (s_time slotToMove) (s_id slotToMove) then None
      else (case findIndex (\<lambda>s. s_id s = s_id slotToMove) slots of
              None \<Rightarrow> None
            | Some originalSlotIndex \<Rightarrow>
                (case findIndex (\<lambda>s. s_id s = s_id candidateSlot) slots of
                   None \<Rightarrow> None
                 | Some targetSlotIndex \<Rightarrow> Some (originalSlotIndex, targetSlotIndex))))"

definition swap_targetDay ::
  "slot list \<Rightarrow> year \<Rightarrow> string \<Rightarrow> slot \<Rightarrow> string \<Rightarrow> string \<Rightarrow> (nat \<times> nat) option" where
  "swap_targetDay slots targetYear d slotToMove subjectToMove targetDay =
     (if targetDay = d then None
      else
        (let targetDailySlots = slotsByDay slots targetYear targetDay
         in if length (filter (\<lambda>s. s_subject s = subjectToMove) targetDailySlots) \<ge> 1 then None
            else first_some (swap_candidate slots targetYear d slotToMove subjectToMove targetDay)
                   targetDailySlots))"

text \<open>The second occurrence of the subject on the day is the slot to move.\<close>

definition swap_subject :: "slot list \<Rightarrow> year \<Rightarrow> string \<Rightarrow> string \<Rightarrow> (nat \<times> nat) option" where
  "swap_subject slots targetYear d subjectToMove =
     (let dailySlots = slotsByDay slots targetYear d
      in case findIndex (\<lambda>s. s_subject s = subjectToMove) dailySlots of
           None \<Rightarrow> None
         | Some firstIndex \<Rightarrow>
             (case findIndex (\<lambda>s. s_subject s = subjectToMove) (drop (Suc firstIndex) dailySlots) of
                None \<Rightarrow> None
              | Some k \<Rightarrow>
                  first_some
                    (swap_targetDay slots targetYear d (dailySlots ! (Suc firstIndex + k))
                       subjectToMove) DAYS))"

definition swap_day :: "slot list \<Rightarrow> year \<Rightarrow> string \<Rightarrow> (nat \<times> nat) option" where
  "swap_day slots targetYear d =
     first_some (swap_subject slots targetYear d) (duplicateSubjects (slotsByDay slots targetYear d))"

text \<open>One iteration of the outer loop finds at most one swap.\<close>

definition find_swap :: "slot list \<Rightarrow> year \<Rightarrow> (nat \<times> nat) option" where
  "find_swap slots targetYear = first_some (swap_day slots targetYear) DAYS"

text \<open>The six assignments of the swap, through the three temporaries.\<close>

definition swap_fields :: "nat \<Rightarrow> nat \<Rightarrow> slot list \<Rightarrow> slot list" where
  "swap_fields i j slots =
     (let tempSubject = s_subject (slots ! i);
          tempFaculty = s_faculty (slots ! i);
          tempSemester = s_semester (slots ! i);
          slots1 = slots [i := (slots ! i) \<lparr> s_subject := s_subject (slots ! j),
                                              s_faculty := s_faculty (slots ! j),
                                              s_semester := s_semester (slots ! j) \<rparr>]
      in slots1 [j := (slots1 ! j) \<lparr> s_subject := tempSubject, s_faculty := tempFaculty,
                                       s_semester := tempSemester \<rparr>])"

record opt_state =
  o_slots :: "slot list"
  swapsMade :: nat
  iterations :: nat

text \<open>The outer loop: \<open>k\<close> iterations are left; an iteration without a swap is the last.\<close>

fun optimize_loop :: "nat \<Rightarrow> year \<Rightarrow> opt_state \<Rightarrow> opt_state" where
  "optimize_loop 0 targetYear st = st"
| "optimize_loop (Suc k) targetYear st =
     (case find_swap (o_slots st) targetYear of
        None \<Rightarrow> st \<lparr> iterations := iterations st + 1 \<rparr>
      | Some p \<Rightarrow>
          optimize_loop k targetYear
            \<lparr> o_slots = swap_fields (fst p) (snd p) (o_slots st),
              swapsMade = swapsMade st + 1,
              iterations = iterations st + 1 \<rparr>)"

definition maxSwaps :: nat where
  "maxSwaps = 20"

definition optimizeDistribution :: "year \<Rightarrow> slot list \<Rightarrow> opt_state" where
  "optimizeDistribution targetYear slots =
     optimize_loop maxSwaps targetYear \<lparr> o_slots = slots, swapsMade = 0, iterations = 0 \<rparr>"

text \<open>The fields of a slot that the optimizer has no assignment to.\<close>

definition frame_of ::
  "slot \<Rightarrow> string \<times> string \<times> string \<times> string \<times> slot_type \<times> year \<times> batch option \<times> int \<times> bool" where
  "frame_of s = (s_id s, s_day s, s_time s, s_room s, s_type s, s_year s, s_batch s,
                 s_duration s, isFillIn s)"

definition content_of :: "slot \<Rightarrow> string \<times> string \<times> int" where
  "content_of s = (s_subject s, s_faculty s, s_semester s)"

subsection \<open>Auxiliary notions of the verification\<close>

text \<open>The three units of one lab block of a subject, as (subject, batch) pairs.\<close>

definition lab_block :: "subject \<Rightarrow> (subject \<times> batch option) list" where
  "lab_block s = [(s, Some BatchA), (s, Some BatchB), (s, Some BatchC)]"

text \<open>The hours from which \<open>Array\<close> builds the units of a subject: the lengths
  \<open>theoryHours\<close> and \<open>ceil(labHours / 2)\<close> are between \<open>0\<close> and \<open>2^32 - 1\<close>.\<close>

definition array_hours :: "subject \<Rightarrow> bool" where
  "array_hours s =
     (0 \<le> theoryHours s \<and> theoryHours s \<le> 4294967295 \<and>
      0 \<le> labHours s \<and> labHours s \<le> 8589934590)"

text \<open>The number of hard rules that a slot fails.\<close>

definition hard_fails :: "slot list \<Rightarrow> rule_context \<Rightarrow> slot \<Rightarrow> rule list \<Rightarrow> nat" where
  "hard_fails slots ctx sl rules =
     length (filter (\<lambda>r. r_type r = Hard \<and> \<not> validate r sl slots ctx) rules)"

subsection \<open>Sample inputs\<close>

definition sample_subject :: "string \<Rightarrow> int \<Rightarrow> int \<Rightarrow> string \<Rightarrow> subject" where
  "sample_subject n th lh f =
     \<lparr> sub_id = n, sub_name = n, sub_code = n, sub_year = SE, theoryHours = th, labHours = lh,
       sub_faculty = FacultyName f, sub_semester = 3 \<rparr>"

definition sample_constraints :: constraints where
  "sample_constraints =
     \<lparr> con_maxHoursPerDay = 6, minBreakBetweenClasses = 15, maxConsecutiveHours = 3,
       prioritizeLabAfternoon = True, allowBackToBackTheory = False, facultyRestSlots = 1,
       yearBatchType = None \<rparr>"

definition sample_slot ::
  "string \<Rightarrow> string \<Rightarrow> string \<Rightarrow> string \<Rightarrow> string \<Rightarrow> string \<Rightarrow> slot_type \<Rightarrow> batch option \<Rightarrow> slot" where
  "sample_slot i d t subj f r ty b =
     \<lparr> s_id = i, s_day = d, s_time = t, s_subject = subj, s_faculty = f, s_room = r,
       s_type = ty, s_year = SE, s_batch = b, s_duration = (if ty = Lab then 2 else 1),
       s_semester = 3, isFillIn = False \<rparr>"

definition sample_context :: rule_context where
  "sample_context =
     \<lparr> ctx_subjects = [sample_subject ''DS'' 3 2 ''Smith''],
       ctx_faculty = [\<lparr> fac_name = ''Smith'', maxHoursPerDay = 6,
                        preferredSlots = [''Morning''] \<rparr>] \<rparr>"

text \<open>A week in which Monday has the subject DS twice and Tuesday has DB once.\<close>

definition opt_sample :: "slot list" where
  "opt_sample =
     [sample_slot ''SE-DS-Monday-8:10-9:10'' ''Monday'' ''8:10-9:10'' ''DS'' ''Smith'' ''R1''
        Theory None,
      sample_slot ''SE-DS-Monday-10:25-11:20'' ''Monday'' ''10:25-11:20'' ''DS'' ''Smith'' ''R1''
        Theory None,
      sample_slot ''SE-DB-Tuesday-8:10-9:10'' ''Tuesday'' ''8:10-9:10'' ''DB'' ''Jones'' ''R1''
        Theory None]"

subsection \<open>Invariants of the construction\<close>

text \<open>The generator \<open>g'\<close> is reached from \<open>g\<close> by pushing slots that \<open>validateSlot\<close>
  accepted at the moment of the push, and by changing the conflict list.\<close>

inductive accepts :: "generator \<Rightarrow> generator \<Rightarrow> bool" where
  accepts_refl: "accepts g g"
| accepts_push: "accepts g g' \<Longrightarrow> validateSlot g' sl \<Longrightarrow> accepts g (push_slot g' sl)"
| accepts_note: "accepts g g' \<Longrightarrow> accepts g (g' \<lparr> conflicts := cs \<rparr>)"

text \<open>No slot of the list is double-booked against a later one, in the sense of
  \<open>validateSlot\<close>.\<close>

fun conflict_free :: "slot list \<Rightarrow> bool" where
  "conflict_free [] = True"
| "conflict_free (s # ss) = (list_all (\<lambda>e. \<not> basic_conflict s e) ss \<and> conflict_free ss)"

text \<open>Double-booking as the specification words it: same day, overlapping times, and
  the same faculty, the same room, or the same year with the same batch or absent batch.\<close>

definition double_booked :: "slot \<Rightarrow> slot \<Rightarrow> bool" where
  "double_booked a b =
     (s_day a = s_day b \<and> doTimesOverlap (s_time a) (s_time b) \<and>
      (s_faculty a = s_faculty b \<or> s_room a = s_room b \<or>
       (s_year a = s_year b \<and> s_batch a = s_batch b)))"

text \<open>The weekly cap that \<open>validateSlot\<close> applies to a subject name and year.\<close>

definition theory_cap :: "subject list \<Rightarrow> string \<Rightarrow> year \<Rightarrow> int" where
  "theory_cap ss subj y =
     (case find (\<lambda>s. sub_name s = subj \<and> sub_year s = y) ss of
        None \<Rightarrow> 3
      | Some subjectDef \<Rightarrow> (if theoryHours subjectDef = 0 then 3 else theoryHours subjectDef))"

definition theory_capped :: "generator \<Rightarrow> bool" where
  "theory_capped g =
     (\<forall>subj y. int (weeklyTheoryCount (generatedSlots g) subj y)
                 \<le> max 0 (theory_cap (subjects g) subj y))"

subsection \<open>Sample runs\<close>

text \<open>A collation by character codes and a constant digest, as a host for sample runs.\<close>

fun code_compare :: "string \<Rightarrow> string \<Rightarrow> int" where
  "code_compare [] [] = 0"
| "code_compare [] (y # ys) = -1"
| "code_compare (x # xs) [] = 1"
| "code_compare (x # xs) (y # ys) =
     (if (of_char x :: nat) < of_char y then -1
      else if (of_char y :: nat) < of_char x then 1
      else code_compare xs ys)"

definition sample_host :: "nat \<Rightarrow> host" where
  "sample_host now = \<lparr> localeCompare = code_compare, sha256_json = (\<lambda>d. ''digest''), date_now = now \<rparr>"

text \<open>An advisory answer without conflicts and without recommendations.\<close>

definition plain_advice :: analysis where
  "plain_advice =
     \<lparr> a_isValid = True, a_conflicts = [], optimizationSuggestions = [], constraintScore = 85,
       recommendedSlots = [] \<rparr>"

text \<open>A department with one subject of 3 theory hours and 2 lab hours, two lab rooms and
  no classroom.\<close>

definition no_classroom_generator :: generator where
  "no_classroom_generator =
     new_generator [sample_subject ''DS'' 3 2 ''Smith'']
       [\<lparr> fac_name = ''Smith'', maxHoursPerDay = 6, preferredSlots = [''Morning''] \<rparr>]
       [] [\<lparr> lab_name = ''L1'' \<rparr>, \<lparr> lab_name = ''L2'' \<rparr>] sample_constraints"

text \<open>The same department with a classroom for its year.\<close>

definition two_lab_generator :: generator where
  "two_lab_generator =
     new_generator [sample_subject ''DS'' 3 2 ''Smith'']
       [\<lparr> fac_name = ''Smith'', maxHoursPerDay = 6, preferredSlots = [''Morning''] \<rparr>]
       [\<lparr> cls_name = ''E404'', assignedYear = SE \<rparr>]
       [\<lparr> lab_name = ''L1'' \<rparr>, \<lparr> lab_name = ''L2'' \<rparr>] sample_constraints"

text \<open>A lab-only subject (no theory hours), one classroom and one lab room; the advisor
  recommends a lecture of that subject with confidence 90.\<close>

definition lab_only_generator :: generator where
  "lab_only_generator =
     new_generator [sample_subject ''PBL'' 0 2 ''Patel'']
       [\<lparr> fac_name = ''Patel'', maxHoursPerDay = 6, preferredSlots = [''Morning''] \<rparr>]
       [\<lparr> cls_name = ''E404'', assignedYear = SE \<rparr>] [\<lparr> lab_name = ''L1'' \<rparr>] sample_constraints"

definition lecture_advice :: analysis where
  "lecture_advice =
     \<lparr> a_isValid = True, a_conflicts = [], optimizationSuggestions = [], constraintScore = 85,
       recommendedSlots =
         [\<lparr> rec_subject = ''PBL'', rec_faculty = ''Patel'', rec_day = ''Monday'',
            rec_time = ''8:10-9:10'', rec_room = ''E404'', rec_type = Theory, rec_batch = None,
            confidence = 90, reasoning = ''morning lecture'' \<rparr>] \<rparr>"

section \<open>Verification\<close>

subsection \<open>The overlap primitive\<close>

lemma split_acc_no_sep: "sep \<notin> set xs \<Longrightarrow> split_acc sep acc xs = [rev acc @ xs]"
  by (induction xs arbitrary: acc) auto

lemma split_acc_at_sep:
  "sep \<notin> set xs \<Longrightarrow> split_acc sep acc (xs @ sep # ys) = (rev acc @ xs) # split_acc sep [] ys"
  by (induction xs arbitrary: acc) auto

lemma is_digit_plain:
  "is_digit c \<Longrightarrow> c \<noteq> CHR ''-'' \<and> c \<noteq> CHR '':'' \<and> c \<noteq> CHR ''+'' \<and> \<not> is_ws c"
  by (auto simp: is_digit_def is_ws_def)

lemma digits_val_snoc: "digits_val (ds @ [c]) = digits_val ds * 10 + digit_val c"
  by (simp add: digits_val_def)

lemma digits_val_append:
  "digits_val (hs @ ms) = digits_val hs * 10 ^ length ms + digits_val ms"
proof (induction ms rule: rev_induct)
  case Nil
  show ?case by (simp add: digits_val_def)
next
  case (snoc c ms)
  have "digits_val (hs @ ms @ [c]) = digits_val ((hs @ ms) @ [c])" by simp
  also have "\<dots> = digits_val (hs @ ms) * 10 + digit_val c" by (rule digits_val_snoc)
  finally show ?case using snoc by (simp add: digits_val_snoc algebra_simps)
qed

text \<open>Below \<open>2^53\<close> the number that \<open>parseInt\<close> returns is the integer it has read; above,
  it is the nearest double, and an infinity from \<open>2^1024\<close> on.\<close>

lemma to_number_exact: "n < 2 ^ 53 \<Longrightarrow> to_number neg n = Num (signed neg n)"
  by (simp add: to_number_def)

lemma to_number_rounds:
  "to_number False 9007199254740993 = Num 9007199254740992 \<and>
   to_number False 9007199254740995 = Num 9007199254740996 \<and>
   to_number True 9007199254740999 = Num (- 9007199254741000)"
  by (simp add: to_number_def round_even_def bit_length.simps signed_def Let_def)

lemma bit_length_power: "bit_length (2 ^ k) = Suc k"
  by (induction k) (simp_all add: bit_length.simps)

lemma to_number_overflow:
  "to_number False (2 ^ 1024) = Infinity \<and> to_number True (2 ^ 1024) = NegInfinity"
proof -
  have e: "bit_length (2 ^ 1024) - 53 = 972" by (subst bit_length_power) simp
  have d: "(2::nat) ^ 1024 div 2 ^ 972 = 2 ^ 52" by (simp add: power_diff [symmetric])
  have m: "(2::nat) ^ 1024 mod 2 ^ 972 = 0" by (simp add: le_imp_power_dvd mod_eq_0_iff_dvd)
  have "round_even (2 ^ 1024) = 2 ^ 52 * 2 ^ 972"
    unfolding round_even_def Let_def e d m by simp
  also have "\<dots> = (2::nat) ^ 1024" by (simp add: power_add [symmetric])
  finally have r: "round_even (2 ^ 1024) = 2 ^ 1024" .
  have b: "\<not> int (2 ^ 1024) < 9007199254740992" by simp
  show ?thesis unfolding to_number_def Let_def r using b by simp
qed

lemma parseInt10_digits:
  assumes "ds \<noteq> []" "list_all is_digit ds" "digits_val ds < 2 ^ 53"
  shows "parseInt10 ds = Num (int (digits_val ds))"
proof -
  obtain c cs where ds: "ds = c # cs" using assms(1) by (cases ds) auto
  have c: "is_digit c" using assms(2) ds by simp
  have "dropWhile is_ws ds = ds" using c ds is_digit_plain by simp
  then have ss: "strip_sign ds = (False, ds)"
    using c ds is_digit_plain by (simp add: strip_sign_def)
  have tw: "takeWhile is_digit ds = ds"
    using assms(2) by (simp add: list_all_iff)
  show ?thesis
    using assms(1) to_number_exact [OF assms(3), of False]
    by (simp add: parseInt10_def signed_def Let_def ss tw)
qed

lemma clock_parse:
  assumes "is_clock hs ms" "hhmm hs ms < 2 ^ 53"
  shows "parseInt10 (replace_colon (hs @ '':'' @ ms)) = Num (hhmm hs ms)"
proof -
  from assms have hs: "hs \<noteq> []" "list_all is_digit hs"
    and ms: "length ms = 2" "list_all is_digit ms"
    by (simp_all add: is_clock_def)
  have "CHR '':'' \<notin> set hs" using hs(2) is_digit_plain by (auto simp: list_all_iff)
  then have r: "replace_colon (hs @ '':'' @ ms) = hs @ ms"
    by (simp add: replace_colon_def remove1_append)
  have v: "int (digits_val (hs @ ms)) = hhmm hs ms"
    using ms(1) by (simp add: hhmm_def digits_val_append)
  then have "int (digits_val (hs @ ms)) < 2 ^ 53" using assms(2) by simp
  then have "digits_val (hs @ ms) < 2 ^ 53" by (simp add: of_nat_less_numeral_power_cancel_iff)
  then have "parseInt10 (hs @ ms) = Num (int (digits_val (hs @ ms)))"
    using hs ms by (intro parseInt10_digits) auto
  then show ?thesis using r v by simp
qed

lemma parse_range_clock:
  assumes "is_clock hs ms" "is_clock he me" "hhmm hs ms < 2 ^ 53" "hhmm he me < 2 ^ 53"
  shows "parse_range (range_str hs ms he me) = [Num (hhmm hs ms), Num (hhmm he me)]"
proof -
  have d1: "CHR ''-'' \<notin> set (hs @ '':'' @ ms)"
    using assms(1) is_digit_plain by (auto simp: is_clock_def list_all_iff)
  have d2: "CHR ''-'' \<notin> set (he @ '':'' @ me)"
    using assms(2) is_digit_plain by (auto simp: is_clock_def list_all_iff)
  have "range_str hs ms he me = (hs @ '':'' @ ms) @ CHR ''-'' # (he @ '':'' @ me)"
    by (simp add: range_str_def)
  then have "str_split (CHR ''-'') (range_str hs ms he me) = [hs @ '':'' @ ms, he @ '':'' @ me]"
    unfolding str_split_def
    using split_acc_at_sep [OF d1, of "[]"] split_acc_no_sep [OF d2, of "[]"] by simp
  then show ?thesis
    using clock_parse [OF assms(1) assms(3)] clock_parse [OF assms(2) assms(4)]
    by (simp add: parse_range_def)
qed

text \<open>The \<open>try\<close> block of \<open>doTimesOverlap\<close> never throws, so its \<open>catch\<close> branch is
  never taken.\<close>

lemma overlap_body_returns: "\<exists>b. overlap_body t1 t2 = Inr b"
  by (simp add: overlap_body_def Let_def)

lemma Math_max_commute: "Math_max a b = Math_max b a"
  by (cases a; cases b) (auto simp: Math_max_def)

lemma Math_min_commute: "Math_min a b = Math_min b a"
  by (cases a; cases b) (auto simp: Math_min_def)

lemma doTimesOverlap_sym: "doTimesOverlap t1 t2 = doTimesOverlap t2 t1"
  by (simp add: doTimesOverlap_def overlap_body_def Let_def
      Math_max_commute [of "nth_number (parse_range t1) 0"]
      Math_min_commute [of "nth_number (parse_range t1) (Suc 0)"])

text \<open>A range with a start or an end that does not parse overlaps nothing.\<close>

lemma doTimesOverlap_nan:
  assumes "nth_number (parse_range t1) 0 = NaN \<or> nth_number (parse_range t1) 1 = NaN \<or>
           nth_number (parse_range t2) 0 = NaN \<or> nth_number (parse_range t2) 1 = NaN"
  shows "doTimesOverlap t1 t2 = False"
proof -
  have l: "num_less a NaN = False" for a by (cases a) simp_all
  show ?thesis
    using assms
    by (auto simp: doTimesOverlap_def overlap_body_def Let_def Math_max_def Math_min_def l)
qed

lemma Math_max_Num: "Math_max (Num x) (Num y) = Num (max x y)"
  by (simp add: Math_max_def max_def)

lemma Math_min_Num: "Math_min (Num x) (Num y) = Num (min x y)"
  by (simp add: Math_min_def min_def)

text \<open>
  Claim C5. On two well-formed time ranges \<open>doTimesOverlap\<close> is the truth value of
  \<open>max(startA, startB) < min(endA, endB)\<close> on the HHMM integers of the ranges, as long as
  these integers are below \<open>2^53\<close>, where \<open>parseInt\<close> is exact; the two ranges
  \<open>8:10-10:10\<close> and \<open>10:10-10:25\<close>, which touch, do not overlap, and \<open>8:10-9:10\<close> and
  \<open>8:40-9:40\<close> do.
\<close>

theorem doTimesOverlap_wellformed:
  assumes "is_clock hs1 ms1" "is_clock he1 me1" "is_clock hs2 ms2" "is_clock he2 me2"
      and "hhmm hs1 ms1 < 2 ^ 53" "hhmm he1 me1 < 2 ^ 53"
      and "hhmm hs2 ms2 < 2 ^ 53" "hhmm he2 me2 < 2 ^ 53"
  shows "doTimesOverlap (range_str hs1 ms1 he1 me1) (range_str hs2 ms2 he2 me2)
           = (max (hhmm hs1 ms1) (hhmm hs2 ms2) < min (hhmm he1 me1) (hhmm he2 me2))
         \<and> doTimesOverlap ''8:10-10:10'' ''10:10-10:25'' = False
         \<and> doTimesOverlap ''8:10-9:10'' ''8:40-9:40'' = True"
proof -
  have "doTimesOverlap (range_str hs1 ms1 he1 me1) (range_str hs2 ms2 he2 me2)
         = (max (hhmm hs1 ms1) (hhmm hs2 ms2) < min (hhmm he1 me1) (hhmm he2 me2))"
    using parse_range_clock [OF assms(1,2,5,6)] parse_range_clock [OF assms(3,4,7,8)]
    by (simp add: doTimesOverlap_def overlap_body_def nth_number_def Math_max_Num Math_min_Num)
  moreover have "doTimesOverlap ''8:10-10:10'' ''10:10-10:25'' = False" by code_simp
  moreover have "doTimesOverlap ''8:10-9:10'' ''8:40-9:40'' = True" by code_simp
  ultimately show ?thesis by simp
qed

theorem doTimesOverlap_wellformed_witness:
  "is_clock ''8'' ''10'' \<and> is_clock ''10'' ''10'' \<and> is_clock ''10'' ''25''
   \<and> hhmm ''8'' ''10'' < 2 ^ 53 \<and> hhmm ''10'' ''10'' < 2 ^ 53 \<and> hhmm ''10'' ''25'' < 2 ^ 53
   \<and> doTimesOverlap ''8:10-10:10'' ''10:10-10:25'' = (max (810::int) 1010 < min 1010 1025)"
proof -
  have c1: "is_clock ''8'' ''10''" by code_simp
  have c2: "is_clock ''10'' ''10''" by code_simp
  have c3: "is_clock ''10'' ''25''" by code_simp
  have h: "hhmm ''8'' ''10'' = 810" "hhmm ''10'' ''10'' = 1010" "hhmm ''10'' ''25'' = 1025"
    by code_simp+
  have b1: "hhmm ''8'' ''10'' < 2 ^ 53" unfolding h by simp
  have b2: "hhmm ''10'' ''10'' < 2 ^ 53" unfolding h by simp
  have b3: "hhmm ''10'' ''25'' < 2 ^ 53" unfolding h by simp
  have r: "range_str ''8'' ''10'' ''10'' ''10'' = ''8:10-10:10''"
    "range_str ''10'' ''10'' ''10'' ''25'' = ''10:10-10:25''"
    by (simp_all add: range_str_def)
  show ?thesis
    using doTimesOverlap_wellformed [OF c1 c2 c2 c3 b1 b2 b2 b3] c1 c2 c3 b1 b2 b3
    unfolding h r by simp
qed

text \<open>
  Claim C6. The claim asks for the answer \<open>true\<close> whenever one of the two ranges fails to
  parse. For the strings \<open>abc\<close> and \<open>8:10-9:10\<close> the code answers \<open>false\<close>: \<open>parseInt\<close>
  gives \<open>NaN\<close> without throwing, and a comparison with \<open>NaN\<close> is false.
\<close>

theorem doTimesOverlap_malformed_is_false: "doTimesOverlap ''abc'' ''8:10-9:10'' = False"
  by code_simp

text \<open>Above \<open>2^53\<close> the rounding of \<open>parseInt\<close> decides: the ends \<open>9007199254740993\<close> and
  \<open>9007199254740999\<close> are read as \<open>9007199254740992\<close> and \<open>9007199254741000\<close>, so the two
  ranges below do not overlap for the code, although their exact integers do.\<close>

lemma doTimesOverlap_rounds:
  "doTimesOverlap ''0:00-90071992547409:93'' ''90071992547409:92-90071992547409:99'' = False"
proof -
  have p: "parse_range ''0:00-90071992547409:93'' = [Num 0, Num 9007199254740992]"
          "parse_range ''90071992547409:92-90071992547409:99''
             = [Num 9007199254740992, Num 9007199254741000]"
    by (simp_all add: parse_range_def str_split_def replace_colon_def parseInt10_def
          strip_sign_def is_ws_def is_digit_def digits_val_def digit_val_def
          to_number_def round_even_def bit_length.simps signed_def Let_def)
  show ?thesis
    by (simp add: doTimesOverlap_def overlap_body_def nth_number_def p Math_max_Num Math_min_Num)
qed


subsection \<open>The rule engine\<close>

lemma apply_rule_violations:
  "hardConstraintViolations (apply_rule slots ctx sl acc r) =
     hardConstraintViolations acc +
       (if r_type r = Hard \<and> \<not> validate r sl slots ctx then 1 else 0)"
  by (simp add: apply_rule_def Let_def)

lemma apply_rule_score:
  "t_score (apply_rule slots ctx sl acc r) = t_score acc + score_of slots ctx sl r"
  by (cases "r_type r") (simp_all add: apply_rule_def score_of_def Let_def)

lemma inner_violations:
  "hardConstraintViolations (foldl (apply_rule slots ctx sl) acc rules) =
     hardConstraintViolations acc + hard_fails slots ctx sl rules"
  by (induction rules arbitrary: acc) (simp_all add: hard_fails_def apply_rule_violations)

lemma inner_score:
  "t_score (foldl (apply_rule slots ctx sl) acc rules) =
     t_score acc + (\<Sum>r\<leftarrow>rules. score_of slots ctx sl r)"
  by (induction rules arbitrary: acc) (simp_all add: apply_rule_score)

lemma outer_violations:
  "hardConstraintViolations
     (foldl (\<lambda>acc sl. foldl (apply_rule slots ctx sl) acc rules) acc xs) =
     hardConstraintViolations acc + (\<Sum>sl\<leftarrow>xs. hard_fails slots ctx sl rules)"
  by (induction xs arbitrary: acc) (simp_all add: inner_violations)

lemma outer_score:
  "t_score (foldl (\<lambda>acc sl. foldl (apply_rule slots ctx sl) acc rules) acc xs) =
     t_score acc + (\<Sum>sl\<leftarrow>xs. \<Sum>r\<leftarrow>rules. score_of slots ctx sl r)"
  by (induction xs arbitrary: acc) (simp_all add: inner_score)

lemma hard_fails_zero:
  "hard_fails slots ctx sl rules = 0 \<longleftrightarrow>
     (\<forall>r\<in>set rules. r_type r = Hard \<longrightarrow> validate r sl slots ctx)"
  by (auto simp: hard_fails_def filter_empty_conv)

lemma sum_list_nat_zero: "(\<Sum>x\<leftarrow>xs. f x) = (0::nat) \<longleftrightarrow> (\<forall>x\<in>set xs. f x = 0)"
  by (induction xs) auto

lemma validateTimetable_isValid:
  "isValid (validateTimetable rules slots ctx) \<longleftrightarrow>
     (\<forall>sl\<in>set slots. \<forall>r\<in>set rules. r_type r = Hard \<longrightarrow> validate r sl slots ctx)"
  by (simp add: validateTimetable_def Let_def outer_violations sum_list_nat_zero hard_fails_zero)

lemma validateTimetable_score:
  "score (validateTimetable rules slots ctx) =
     (\<Sum>sl\<leftarrow>slots. \<Sum>r\<leftarrow>rules. score_of slots ctx sl r)"
  by (simp add: validateTimetable_def Let_def outer_score)

lemma default_hard_fail:
  "(\<exists>r\<in>set initializeDefaultRules. r_type r = Hard \<and> \<not> validate r sl slots ctx) \<longleftrightarrow>
   (\<exists>ex\<in>set slots. s_day ex = s_day sl \<and> s_time ex = s_time sl \<and> s_id ex \<noteq> s_id sl \<and>
      (s_faculty ex = s_faculty sl \<or> s_room ex = s_room sl \<or>
       (s_year ex = s_year sl \<and> s_batch ex = s_batch sl)))"
  unfolding initializeDefaultRules_def
  by (auto simp: no_faculty_conflict_def no_room_conflict_def no_student_conflict_def list_ex_iff)

text \<open>
  Claim C4, as stated, fails: the hard rules do not look at overlapping times. A lab of
  Smith on Monday \<open>8:10-10:10\<close> and a lecture of Smith on Monday \<open>8:10-9:10\<close> overlap and
  are two slots with different ids, and \<open>validateTimetable\<close> calls the timetable valid.
\<close>

theorem validateTimetable_overlap_counterexample:
  "doTimesOverlap ''8:10-10:10'' ''8:10-9:10'' \<and>
   isValid (validateTimetable initializeDefaultRules
     [sample_slot ''a'' ''Monday'' ''8:10-10:10'' ''DS Lab'' ''Smith'' ''L1'' Lab (Some BatchA),
      sample_slot ''b'' ''Monday'' ''8:10-9:10'' ''DS'' ''Smith'' ''R1'' Theory None]
     sample_context) = True"
proof -
  have "doTimesOverlap ''8:10-10:10'' ''8:10-9:10''" by code_simp
  moreover have "isValid (validateTimetable initializeDefaultRules
     [sample_slot ''a'' ''Monday'' ''8:10-10:10'' ''DS Lab'' ''Smith'' ''L1'' Lab (Some BatchA),
      sample_slot ''b'' ''Monday'' ''8:10-9:10'' ''DS'' ''Smith'' ''R1'' Theory None]
     sample_context)"
    unfolding validateTimetable_isValid initializeDefaultRules_def
    by (simp add: no_faculty_conflict_def no_room_conflict_def no_student_conflict_def
        sample_slot_def)
  ultimately show ?thesis by simp
qed

text \<open>
  Claim C4, amended. \<open>validateTimetable\<close> answers \<open>isValid = false\<close> exactly when some slot
  fails some hard rule; the score is the sum over all (slot, soft rule) pairs of the weight
  when the rule passes and of minus the weight when it fails; and a slot fails one of the
  three default hard rules exactly when another slot of the list, with a different id, has
  the same day and the identical time string and shares the faculty, the room, or both
  the year and the batch.
\<close>

theorem validateTimetable_verdict_and_score:
  "(isValid (validateTimetable rules slots ctx) = False \<longleftrightarrow>
      (\<exists>sl\<in>set slots. \<exists>r\<in>set rules. r_type r = Hard \<and> \<not> validate r sl slots ctx))
   \<and> score (validateTimetable rules slots ctx) =
       (\<Sum>sl\<leftarrow>slots. \<Sum>r\<leftarrow>rules.
          if r_type r = Soft then (if validate r sl slots ctx then weight r else - weight r)
          else 0)
   \<and> ((\<exists>r\<in>set initializeDefaultRules. r_type r = Hard \<and> \<not> validate r sl slots ctx) \<longleftrightarrow>
       (\<exists>ex\<in>set slots. s_day ex = s_day sl \<and> s_time ex = s_time sl \<and> s_id ex \<noteq> s_id sl \<and>
          (s_faculty ex = s_faculty sl \<or> s_room ex = s_room sl \<or>
           (s_year ex = s_year sl \<and> s_batch ex = s_batch sl))))"
proof -
  have "isValid (validateTimetable rules slots ctx) = False \<longleftrightarrow>
      (\<exists>sl\<in>set slots. \<exists>r\<in>set rules. r_type r = Hard \<and> \<not> validate r sl slots ctx)"
    using validateTimetable_isValid [of rules slots ctx] by blast
  moreover have "score (validateTimetable rules slots ctx) =
       (\<Sum>sl\<leftarrow>slots. \<Sum>r\<leftarrow>rules.
          if r_type r = Soft then (if validate r sl slots ctx then weight r else - weight r)
          else 0)"
    using validateTimetable_score [of rules slots ctx] by (simp add: score_of_def)
  ultimately show ?thesis using default_hard_fail [of sl slots ctx] by blast
qed

theorem validateTimetable_verdict_and_score_witness:
  "isValid (validateTimetable initializeDefaultRules
     [sample_slot ''a'' ''Monday'' ''8:10-9:10'' ''DS'' ''Smith'' ''R1'' Theory None,
      sample_slot ''b'' ''Monday'' ''8:10-9:10'' ''DB'' ''Smith'' ''R2'' Theory None]
     sample_context) = False"
proof -
  let ?a = "sample_slot ''a'' ''Monday'' ''8:10-9:10'' ''DS'' ''Smith'' ''R1'' Theory None"
  let ?b = "sample_slot ''b'' ''Monday'' ''8:10-9:10'' ''DB'' ''Smith'' ''R2'' Theory None"
  have "\<exists>ex\<in>set [?a, ?b]. s_day ex = s_day ?a \<and> s_time ex = s_time ?a \<and> s_id ex \<noteq> s_id ?a \<and>
          (s_faculty ex = s_faculty ?a \<or> s_room ex = s_room ?a \<or>
           (s_year ex = s_year ?a \<and> s_batch ex = s_batch ?a))"
    by (simp add: sample_slot_def)
  then have "\<exists>r\<in>set initializeDefaultRules. r_type r = Hard \<and>
               \<not> validate r ?a [?a, ?b] sample_context"
    using validateTimetable_verdict_and_score
      [of initializeDefaultRules "[?a, ?b]" sample_context ?a] by blast
  then have "\<exists>sl\<in>set [?a, ?b]. \<exists>r\<in>set initializeDefaultRules. r_type r = Hard \<and>
               \<not> validate r sl [?a, ?b] sample_context"
    by auto
  then show ?thesis
    using validateTimetable_verdict_and_score
      [of initializeDefaultRules "[?a, ?b]" sample_context ?a] by blast
qed


subsection \<open>The optimizer\<close>

lemma findIndex_Some: "findIndex P xs = Some i \<Longrightarrow> i < length xs \<and> P (xs ! i)"
proof (induction xs arbitrary: i)
  case Nil
  then show ?case by simp
next
  case (Cons x xs)
  show ?case
  proof (cases "P x")
    case True
    with Cons.prems show ?thesis by simp
  next
    case False
    with Cons.prems obtain k where "findIndex P xs = Some k" "i = Suc k" by auto
    with Cons.IH show ?thesis by simp
  qed
qed

lemma first_some_Some: "first_some f xs = Some y \<Longrightarrow> \<exists>x\<in>set xs. f x = Some y"
  by (induction xs) (auto split: option.splits)

lemma swap_candidate_bounds:
  "swap_candidate slots y d mv subj td cand = Some p \<Longrightarrow>
   fst p < length slots \<and> snd p < length slots"
  by (auto simp: swap_candidate_def split: if_splits option.splits dest: findIndex_Some)

lemma find_swap_bounds:
  assumes "find_swap slots y = Some p"
  shows "fst p < length slots \<and> snd p < length slots"
proof -
  from assms obtain d where "swap_day slots y d = Some p"
    unfolding find_swap_def by (auto dest: first_some_Some)
  then obtain subj where "swap_subject slots y d subj = Some p"
    unfolding swap_day_def by (auto dest: first_some_Some)
  then obtain mv td where "swap_targetDay slots y d mv subj td = Some p"
    unfolding swap_subject_def Let_def by (auto split: option.splits dest: first_some_Some)
  then obtain cand where "swap_candidate slots y d mv subj td cand = Some p"
    unfolding swap_targetDay_def Let_def by (auto split: if_splits dest: first_some_Some)
  then show ?thesis by (rule swap_candidate_bounds)
qed

lemma frame_of_update [simp]:
  "frame_of (s \<lparr> s_subject := a, s_faculty := b, s_semester := c \<rparr>) = frame_of s"
  by (simp add: frame_of_def)

lemma content_of_update [simp]:
  "content_of (s \<lparr> s_subject := a, s_faculty := b, s_semester := c \<rparr>) = (a, b, c)"
  by (simp add: content_of_def)

lemma swap_fields_length [simp]: "length (swap_fields i j slots) = length slots"
  by (simp add: swap_fields_def Let_def)

lemma swap_fields_frame: "map frame_of (swap_fields i j slots) = map frame_of slots"
proof (rule nth_equalityI)
  show "length (map frame_of (swap_fields i j slots)) = length (map frame_of slots)" by simp
next
  fix k assume "k < length (map frame_of (swap_fields i j slots))"
  then have k: "k < length slots" by simp
  show "map frame_of (swap_fields i j slots) ! k = map frame_of slots ! k"
  proof (cases "j < length slots")
    case True
    then show ?thesis using k
      by (cases "i < length slots"; cases "k = j"; cases "k = i")
         (simp_all add: swap_fields_def Let_def)
  next
    case False
    then show ?thesis using k
      by (cases "i < length slots"; cases "k = i") (simp_all add: swap_fields_def Let_def)
  qed
qed

lemma swap_fields_content:
  assumes "i < length slots" "j < length slots"
  shows "map content_of (swap_fields i j slots) =
         (map content_of slots) [i := content_of (slots ! j), j := content_of (slots ! i)]"
proof (rule nth_equalityI)
  show "length (map content_of (swap_fields i j slots)) =
        length ((map content_of slots) [i := content_of (slots ! j), j := content_of (slots ! i)])"
    by simp
next
  fix k assume "k < length (map content_of (swap_fields i j slots))"
  then have k: "k < length slots" by simp
  then show "map content_of (swap_fields i j slots) ! k =
        (map content_of slots) [i := content_of (slots ! j), j := content_of (slots ! i)] ! k"
    using assms by (auto simp: swap_fields_def Let_def nth_list_update content_of_def)
qed

lemma mset_exchange:
  assumes "i < length xs" "j < length xs"
  shows "mset (xs [i := xs ! j, j := xs ! i]) = mset xs"
  using assms by (simp add: mset_swap)

lemma swap_fields_mset:
  assumes "i < length slots" "j < length slots"
  shows "mset (map content_of (swap_fields i j slots)) = mset (map content_of slots)"
proof -
  have "mset ((map content_of slots)
              [i := (map content_of slots) ! j, j := (map content_of slots) ! i])
        = mset (map content_of slots)"
    using assms by (intro mset_exchange) simp_all
  then show ?thesis using swap_fields_content [OF assms] assms by simp
qed

lemma optimize_loop_frame:
  "map frame_of (o_slots (optimize_loop k y st)) = map frame_of (o_slots st)"
  by (induction k y st rule: optimize_loop.induct)
     (auto simp: swap_fields_frame split: option.splits)

lemma optimize_loop_mset:
  "mset (map content_of (o_slots (optimize_loop k y st))) = mset (map content_of (o_slots st))"
proof (induction k y st rule: optimize_loop.induct)
  case (1 y st)
  show ?case by simp
next
  case (2 k y st)
  show ?case
  proof (cases "find_swap (o_slots st) y")
    case None
    then show ?thesis by simp
  next
    case (Some p)
    then have b: "fst p < length (o_slots st)" "snd p < length (o_slots st)"
      using find_swap_bounds by blast+
    have "mset (map content_of (swap_fields (fst p) (snd p) (o_slots st)))
               = mset (map content_of (o_slots st))"
      by (rule swap_fields_mset [OF b])
    then show ?thesis using 2 Some by simp
  qed
qed

lemma optimize_loop_exit:
  "(iterations (optimize_loop k y st) = iterations st + k \<and>
    swapsMade (optimize_loop k y st) = swapsMade st + k) \<or>
   (iterations (optimize_loop k y st) \<le> iterations st + k \<and>
    iterations (optimize_loop k y st) - iterations st =
      swapsMade (optimize_loop k y st) - swapsMade st + 1 \<and>
    swapsMade st \<le> swapsMade (optimize_loop k y st) \<and>
    find_swap (o_slots (optimize_loop k y st)) y = None)"
proof (induction k y st rule: optimize_loop.induct)
  case (1 y st)
  show ?case by simp
next
  case (2 k y st)
  show ?case
  proof (cases "find_swap (o_slots st) y")
    case None
    then show ?thesis by simp
  next
    case (Some p)
    let ?st' = "\<lparr> o_slots = swap_fields (fst p) (snd p) (o_slots st),
              swapsMade = swapsMade st + 1, iterations = iterations st + 1 \<rparr>"
    have eq: "optimize_loop (Suc k) y st = optimize_loop k y ?st'" using Some by simp
    from 2 [OF Some] show ?thesis unfolding eq by auto
  qed
qed

text \<open>
  Claim C9. The optimizer leaves the id, day, time, room, type, year, batch, duration and
  fill-in flag of every slot as they are, at every position of the list, and the
  (subject, faculty, semester) triples of the result are those of the input, exchanged
  between positions. It runs at most 20 iterations: either all 20 iterations swap, or the
  loop ends with the first iteration that finds no swap. Each swap exchanges the triples
  of two positions of the list and changes nothing else.
\<close>

theorem optimizeDistribution_frame_and_bound:
  "map frame_of (o_slots (optimizeDistribution y slots)) = map frame_of slots
   \<and> mset (map content_of (o_slots (optimizeDistribution y slots))) = mset (map content_of slots)
   \<and> iterations (optimizeDistribution y slots) \<le> 20
   \<and> ((iterations (optimizeDistribution y slots) = 20 \<and>
        swapsMade (optimizeDistribution y slots) = 20) \<or>
       (iterations (optimizeDistribution y slots) = swapsMade (optimizeDistribution y slots) + 1 \<and>
        find_swap (o_slots (optimizeDistribution y slots)) y = None))
   \<and> (find_swap slots y = Some p \<longrightarrow>
        fst p < length slots \<and> snd p < length slots \<and>
        map frame_of (swap_fields (fst p) (snd p) slots) = map frame_of slots \<and>
        map content_of (swap_fields (fst p) (snd p) slots) =
          (map content_of slots) [fst p := content_of (slots ! snd p),
                                  snd p := content_of (slots ! fst p)])"
proof -
  let ?st = "\<lparr> o_slots = slots, swapsMade = 0, iterations = 0 \<rparr>"
  have r: "optimizeDistribution y slots = optimize_loop 20 y ?st"
    by (simp add: optimizeDistribution_def maxSwaps_def)
  have f: "map frame_of (o_slots (optimizeDistribution y slots)) = map frame_of slots"
    unfolding r using optimize_loop_frame [of 20 y ?st] by simp
  have m: "mset (map content_of (o_slots (optimizeDistribution y slots)))
           = mset (map content_of slots)"
    unfolding r using optimize_loop_mset [of 20 y ?st] by simp
  have e: "(iterations (optimizeDistribution y slots) = 20 \<and>
        swapsMade (optimizeDistribution y slots) = 20) \<or>
       (iterations (optimizeDistribution y slots) \<le> 20 \<and>
        iterations (optimizeDistribution y slots) = swapsMade (optimizeDistribution y slots) + 1 \<and>
        find_swap (o_slots (optimizeDistribution y slots)) y = None)"
    unfolding r using optimize_loop_exit [of 20 y ?st] by simp
  have s: "find_swap slots y = Some p \<longrightarrow>
        fst p < length slots \<and> snd p < length slots \<and>
        map frame_of (swap_fields (fst p) (snd p) slots) = map frame_of slots \<and>
        map content_of (swap_fields (fst p) (snd p) slots) =
          (map content_of slots) [fst p := content_of (slots ! snd p),
                                  snd p := content_of (slots ! fst p)]"
    using find_swap_bounds [of slots y p] swap_fields_frame [of "fst p" "snd p" slots]
      swap_fields_content [of "fst p" slots "snd p"] by blast
  from e have i: "iterations (optimizeDistribution y slots) \<le> 20" by auto
  from f m e s i show ?thesis by blast
qed

theorem optimizeDistribution_frame_and_bound_witness:
  "find_swap opt_sample SE = Some (1, 2)
   \<and> map content_of (swap_fields 1 2 opt_sample) =
       [(''DS'', ''Smith'', 3), (''DB'', ''Jones'', 3), (''DS'', ''Smith'', 3)]
   \<and> map frame_of (swap_fields 1 2 opt_sample) = map frame_of opt_sample
   \<and> iterations (optimizeDistribution SE opt_sample) = 2
   \<and> swapsMade (optimizeDistribution SE opt_sample) = 1"
proof -
  have a: "find_swap opt_sample SE = Some (1, 2)" by code_simp
  have c: "(map content_of opt_sample) [1 := content_of (opt_sample ! 2),
                                        2 := content_of (opt_sample ! 1)]
           = [(''DS'', ''Smith'', 3), (''DB'', ''Jones'', 3), (''DS'', ''Smith'', 3)]"
    by code_simp
  have i: "iterations (optimizeDistribution SE opt_sample) = 2" by code_simp
  have w: "swapsMade (optimizeDistribution SE opt_sample) = 1" by code_simp
  show ?thesis
    using optimizeDistribution_frame_and_bound [of SE opt_sample "(1, 2)"] a c i w by simp
qed


subsection \<open>The demand pools\<close>


lemma lecture_units_ok:
  "array_hours (snd p) \<Longrightarrow>
   lecture_units p = Inr (replicate (nat (theoryHours (snd p)))
      \<lparr> d_ref = fst p, d_subject = snd p, d_year = sub_year (snd p), d_batch = None \<rparr>)"
  by (simp add: lecture_units_def Array_n_def array_hours_def)

lemma lab_units_ok:
  assumes "array_hours s"
  shows "lab_units s = Inr (concat (replicate (nat (ceil_half (labHours s)))
      (map (\<lambda>b. \<lparr> d_ref = 0, d_subject = s, d_year = sub_year s, d_batch = Some b \<rparr>)
         [BatchA, BatchB, BatchC])))"
proof -
  have "0 \<le> labHours s" "labHours s \<le> 8589934590"
    using assms by (simp_all add: array_hours_def)
  then have "0 \<le> ceil_half (labHours s)" "ceil_half (labHours s) \<le> 4294967295"
    unfolding ceil_half_def by linarith+
  then show ?thesis by (simp add: lab_units_def Array_n_def)
qed

lemma lecture_flatMap:
  "\<forall>s\<in>set ss. array_hours s \<Longrightarrow>
   \<exists>lectures. flatMap_err lecture_units (enumerate n ss) = Inr lectures \<and>
      map d_subject lectures = concat (map (\<lambda>s. replicate (nat (theoryHours s)) s) ss)"
proof (induction ss arbitrary: n)
  case Nil
  show ?case by simp
next
  case (Cons s ss)
  then obtain rest where r: "flatMap_err lecture_units (enumerate (Suc n) ss) = Inr rest"
    "map d_subject rest = concat (map (\<lambda>s. replicate (nat (theoryHours s)) s) ss)"
    by fastforce
  have "array_hours s" using Cons.prems by simp
  then show ?case using r by (simp add: lecture_units_ok)
qed

lemma lab_units_pairs:
  "map (\<lambda>u. (d_subject u, d_batch u)) (concat (replicate k
      (map (\<lambda>b. \<lparr> d_ref = 0, d_subject = s, d_year = sub_year s, d_batch = Some b \<rparr>)
         [BatchA, BatchB, BatchC]))) = concat (replicate k (lab_block s))"
  by (induction k) (simp_all add: lab_block_def)

lemma lab_flatMap:
  "\<forall>s\<in>set ss. array_hours s \<Longrightarrow>
   \<exists>ds. flatMap_err lab_units ss = Inr ds \<and>
      map (\<lambda>u. (d_subject u, d_batch u)) ds =
        concat (map (\<lambda>s. concat (replicate (nat (ceil_half (labHours s))) (lab_block s))) ss)"
proof (induction ss)
  case Nil
  show ?case by simp
next
  case (Cons s ss)
  then obtain rest where r: "flatMap_err lab_units ss = Inr rest"
    "map (\<lambda>u. (d_subject u, d_batch u)) rest =
        concat (map (\<lambda>s. concat (replicate (nat (ceil_half (labHours s))) (lab_block s))) ss)"
    by fastforce
  have "array_hours s" using Cons.prems by simp
  then show ?case using r lab_units_pairs by (simp add: lab_units_ok)
qed










subsection \<open>Accepted pushes\<close>

lemma accepts_trans:
  assumes "accepts b c" "accepts a b"
  shows "accepts a c"
  using assms by (induction rule: accepts.induct) (auto intro: accepts.intros)

lemma accepts_push1: "validateSlot g sl \<Longrightarrow> accepts g (push_slot g sl)"
  by (rule accepts_push [OF accepts_refl])

lemma accepts_push_conflict: "accepts g (push_conflict g c)"
  unfolding push_conflict_def by (rule accepts_note [OF accepts_refl])

lemma validateSlot_conflicts [simp]: "validateSlot (g \<lparr> conflicts := cs \<rparr>) sl = validateSlot g sl"
  by (simp add: validateSlot_def hasConsecutiveSession_def maxAllowed_def)

lemma accepts_subjects: "accepts g g' \<Longrightarrow> subjects g' = subjects g"
  by (induction rule: accepts.induct) (simp_all add: push_slot_def)

lemma conflict_free_snoc:
  "conflict_free (xs @ [s]) = (conflict_free xs \<and> list_all (\<lambda>e. \<not> basic_conflict e s) xs)"
  by (induction xs) auto

lemma validateSlot_no_conflict:
  "validateSlot g sl \<Longrightarrow> list_all (\<lambda>e. \<not> basic_conflict e sl) (generatedSlots g)"
  by (auto simp: validateSlot_def list_all_iff list_ex_iff split: if_splits)

lemma accepts_conflict_free:
  "accepts g g' \<Longrightarrow> conflict_free (generatedSlots g) \<Longrightarrow> conflict_free (generatedSlots g')"
  by (induction rule: accepts.induct)
     (simp_all add: push_slot_def conflict_free_snoc validateSlot_no_conflict)

lemma maxAllowed_cap: "maxAllowed g sl = theory_cap (subjects g) (s_subject sl) (s_year sl)"
  by (simp add: maxAllowed_def theory_cap_def)

lemma validateSlot_below_cap:
  "validateSlot g sl \<Longrightarrow> s_type sl = Theory \<Longrightarrow>
   int (weeklyTheoryCount (generatedSlots g) (s_subject sl) (s_year sl))
     < theory_cap (subjects g) (s_subject sl) (s_year sl)"
  by (auto simp: validateSlot_def maxAllowed_cap split: if_splits)

lemma weeklyTheoryCount_snoc:
  "weeklyTheoryCount (xs @ [sl]) subj y =
     weeklyTheoryCount xs subj y +
       (if s_type sl = Theory \<and> s_subject sl = subj \<and> s_year sl = y then 1 else 0)"
  by (simp add: weeklyTheoryCount_def)

lemma push_theory_capped:
  assumes "theory_capped g" "validateSlot g sl"
  shows "theory_capped (push_slot g sl)"
  unfolding theory_capped_def
proof (intro allI)
  fix subj y
  have old: "int (weeklyTheoryCount (generatedSlots g) subj y) \<le> max 0 (theory_cap (subjects g) subj y)"
    using assms(1) by (simp add: theory_capped_def)
  show "int (weeklyTheoryCount (generatedSlots (push_slot g sl)) subj y)
          \<le> max 0 (theory_cap (subjects (push_slot g sl)) subj y)"
  proof (cases "s_type sl = Theory \<and> s_subject sl = subj \<and> s_year sl = y")
    case True
    then show ?thesis using validateSlot_below_cap [OF assms(2)]
      by (simp add: push_slot_def weeklyTheoryCount_snoc)
  next
    case False
    then show ?thesis using old by (auto simp: push_slot_def weeklyTheoryCount_snoc)
  qed
qed

lemma accepts_theory_capped: "accepts g g' \<Longrightarrow> theory_capped g \<Longrightarrow> theory_capped g'"
proof (induction rule: accepts.induct)
  case (accepts_refl g)
  then show ?case .
next
  case (accepts_push g g' sl)
  then show ?case by (simp add: push_theory_capped)
next
  case (accepts_note g g' cs)
  then show ?case by (simp add: theory_capped_def)
qed

text \<open>Each pass only pushes accepted slots.\<close>

lemma accepts_apply_recommendation: "accepts g (apply_recommendation rs y sem g r)"
  by (auto simp: apply_recommendation_def Let_def accepts_push1 intro: accepts_refl split: option.splits)

lemma accepts_foldl:
  assumes "\<And>g x. accepts g (f g x)"
  shows "accepts g (foldl f g xs)"
proof (induction xs arbitrary: g)
  case Nil
  show ?case by (simp add: accepts_refl)
next
  case (Cons x xs)
  show ?case using accepts_trans [OF Cons [of "f g x"] assms [of g x]] by simp
qed

lemma accepts_foldl_fst:
  assumes "\<And>st x. accepts (fst st) (fst (f st x))"
  shows "accepts (fst st) (fst (foldl f st xs))"
proof (induction xs arbitrary: st)
  case Nil
  show ?case by (simp add: accepts_refl)
next
  case (Cons x xs)
  show ?case using accepts_trans [OF Cons [of "f st x"] assms [of st x]] by simp
qed

lemma accepts_lab_candidates: "accepts (sw_gen sw) (sw_gen (lab_candidates d t rooms cands sw))"
proof (induction cands arbitrary: sw)
  case Nil
  show ?case by (simp add: accepts_refl)
next
  case (Cons c cs)
  let ?sl = "lab_slot c d t (rooms ! scheduledInThisSlot sw)"
  let ?sw' = "\<lparr> sw_gen = push_slot (sw_gen sw) ?sl,
                 labsForTargetYear = remove_ref c (labsForTargetYear sw),
                 sw_pool = remove_ref c (sw_pool sw),
                 facultyScheduledThisSlot =
                   facultyScheduledThisSlot sw @ [getFacultyName (d_subject c)],
                 batchesScheduledThisSlot =
                   batchesScheduledThisSlot sw @
                     [year_str (d_year c) @ ''-'' @ batch_opt_str (d_batch c)],
                 scheduledInThisSlot = scheduledInThisSlot sw + 1 \<rparr>"
  have keep: "accepts (sw_gen sw) (sw_gen (lab_candidates d t rooms cs sw))" by (rule Cons)
  have push: "validateSlot (sw_gen sw) ?sl \<Longrightarrow>
              accepts (sw_gen sw) (sw_gen (lab_candidates d t rooms cs ?sw'))"
    using accepts_trans [OF Cons [of ?sw']] accepts_push1 [of "sw_gen sw" ?sl] by simp
  show ?case using keep push by (simp add: Let_def accepts_refl)
qed

lemma fst_drop_mid: "fst (case p of (a, b, c) \<Rightarrow> (a, c)) = fst p"
  by (simp split: prod.splits)

lemma fst_drop_last: "fst (case p of (a, b, c) \<Rightarrow> (a, b)) = fst p"
  by (simp split: prod.splits)

lemma accepts_lab_cell: "accepts (fst st) (fst (lab_cell mode st cell))"
  by (cases st) (auto simp: lab_cell_def Let_def accepts_refl
     intro: accepts_lab_candidates [of "\<lparr> sw_gen = g, labsForTargetYear = a, sw_pool = b,
        facultyScheduledThisSlot = [], batchesScheduledThisSlot = [], scheduledInThisSlot = 0 \<rparr>" for g a b, simplified])

lemma accepts_scheduleLabsConcurrently:
  "accepts g (fst (scheduleLabsConcurrently g pool y mode))"
proof -
  let ?st = "(g, filter (\<lambda>l. d_year l = y) pool, pool)"
  have "accepts (fst ?st) (fst (foldl (lab_cell mode) ?st (List.product DAYS (getLabSlotsForYear g y))))"
    by (rule accepts_foldl_fst) (rule accepts_lab_cell)
  then show ?thesis by (simp add: scheduleLabsConcurrently_def Let_def fst_drop_mid)
qed

lemma accepts_ai_lecture_cell: "accepts (fst st) (fst (ai_lecture_cell y room st cell))"
  by (cases st) (auto simp: ai_lecture_cell_def Let_def accepts_refl accepts_push1 split: option.splits)

lemma accepts_ai_lecture_cell_aliased:
  "accepts (fst st) (fst (ai_lecture_cell_aliased y room st cell))"
  by (cases st)
     (auto simp: ai_lecture_cell_aliased_def Let_def accepts_refl accepts_push1 split: option.splits)

lemma accepts_direct_lecture_cell:
  "accepts (fst st) (fst (direct_lecture_cell pre fill y room st cell))"
  by (cases st)
     (auto simp: direct_lecture_cell_def Let_def accepts_refl accepts_push1 split: option.splits)

lemma accepts_scheduleLecturesWithAI:
  "accepts g (fst (scheduleLecturesWithAI g pool y rooms))"
proof -
  have a: "accepts (fst st) (fst (foldl (ai_lecture_cell y room) st cells))" for st room cells
    by (rule accepts_foldl_fst) (rule accepts_ai_lecture_cell)
  have b: "accepts (fst st) (fst (foldl (ai_lecture_cell_aliased y room) st cells))" for st room cells
    by (rule accepts_foldl_fst) (rule accepts_ai_lecture_cell_aliased)
  show ?thesis
    using a [of "(g, pool, sortPoolByAIInsights g pool Theory)"] b [of "(g, pool)"]
    by (auto simp: scheduleLecturesWithAI_def Let_def accepts_refl fst_drop_last split: option.splits)
qed

lemma accepts_scheduleLecturesFallback:
  "accepts g (fst (scheduleLecturesFallback g pool y rooms))"
proof -
  have a: "accepts (fst st) (fst (foldl (direct_lecture_cell pre fill y room) st cells))"
    for st room cells pre fill
    by (rule accepts_foldl_fst) (rule accepts_direct_lecture_cell)
  show ?thesis using a [of "(g, pool)"]
    by (auto simp: scheduleLecturesFallback_def accepts_refl split: option.splits)
qed

lemma accepts_fill_cells: "accepts (fst st) (fst (fill_cells y room cells st))"
proof (induction cells arbitrary: st)
  case Nil
  show ?case by (simp add: accepts_refl)
next
  case (Cons c cs)
  show ?case
    using accepts_trans [OF Cons [of "direct_lecture_cell ''fill-'' True y room st c"]
        accepts_direct_lecture_cell [of st "''fill-''" True y room c]]
    by (simp add: accepts_refl)
qed

lemma accepts_fillRemainingLectureSlots:
  "accepts g (fst (fillRemainingLectureSlots g pool y rooms))"
  using accepts_fill_cells [of "(g, pool)"]
  by (auto simp: fillRemainingLectureSlots_def accepts_refl split: option.splits)

lemma accepts_reportUnscheduled: "accepts g (reportUnscheduled g lectures labPool)"
proof -
  have a: "accepts g (foldl (\<lambda>g x. push_conflict g (f x)) g xs)" for f :: "'a \<Rightarrow> conflict" and g xs
    by (rule accepts_foldl) (rule accepts_push_conflict)
  show ?thesis unfolding reportUnscheduled_def Let_def
    by (rule accepts_trans [OF a a])
qed

lemma accepts_validateCriticalConstraints: "accepts g (validateCriticalConstraints g)"
  unfolding validateCriticalConstraints_def Let_def by (rule accepts_note [OF accepts_refl])

lemma accepts_validateFacultyWorkload: "accepts g (validateFacultyWorkload g)"
  unfolding validateFacultyWorkload_def Let_def by (rule accepts_note [OF accepts_refl])

lemma accepts_validateRoomUtilization: "accepts g (validateRoomUtilization g)"
  unfolding validateRoomUtilization_def Let_def by (rule accepts_note [OF accepts_refl])

lemma accepts_validateAndOptimize: "accepts g (validateAndOptimize g)"
proof -
  have "accepts g (case analysisResult g of None \<Rightarrow> g
                   | Some ar \<Rightarrow> g \<lparr> conflicts := conflicts g @ a_conflicts ar \<rparr>)"
    by (auto split: option.splits intro: accepts_refl accepts_note)
  then show ?thesis unfolding validateAndOptimize_def Let_def
    by (intro accepts_trans [OF accepts_validateRoomUtilization]
          accepts_trans [OF accepts_validateFacultyWorkload]
          accepts_trans [OF accepts_validateCriticalConstraints])
qed

lemma accepts_passes:
  "accepts g0 (reportUnscheduled
     (fst (fillRemainingLectureSlots
        (fst (scheduleLecturesWithAI (fst (scheduleLabsConcurrently g0 labPool y AiMode))
                lectures y rooms))
        l1 y rooms)) l2 l3)"
  by (intro accepts_trans [OF accepts_reportUnscheduled]
        accepts_trans [OF accepts_fillRemainingLectureSlots]
        accepts_trans [OF accepts_scheduleLecturesWithAI]
        accepts_scheduleLabsConcurrently)

lemma accepts_generateSlotsWithAI:
  assumes "generateSlotsWithAI g y sem = Inr g' \<or> generateSlotsWithAI g y sem = Inl (e, g')"
  shows "accepts g g'"
proof -
  let ?rel = "filter (\<lambda>s. sub_year s = y \<and> sub_semester s = sem) (subjects g)"
  let ?rooms = "filter (\<lambda>c. assignedYear c = y) (classrooms g)"
  show ?thesis
  proof (cases "analysisResult g")
    case None
    then show ?thesis using assms by (auto simp: generateSlotsWithAI_def accepts_refl)
  next
    case (Some ar)
    let ?g1 = "foldl (apply_recommendation ?rel y sem) g (recommendedSlots ar)"
    have recs: "accepts g ?g1"
      by (rule accepts_foldl) (rule accepts_apply_recommendation)
    show ?thesis
    proof (cases "createLecturePool ?rel")
      case (Inl e1)
      then have "g' = ?g1" using assms Some by (simp add: generateSlotsWithAI_def Let_def)
      then show ?thesis using recs by simp
    next
      case lec: (Inr lectures)
      show ?thesis
      proof (cases "createLabPool ?rel")
        case (Inl e1)
        then have "g' = ?g1" using assms Some lec by (simp add: generateSlotsWithAI_def Let_def)
        then show ?thesis using recs by simp
      next
        case lab: (Inr labPool)
        have "\<exists>l1 l2 l3. g' = reportUnscheduled
           (fst (fillRemainingLectureSlots
              (fst (scheduleLecturesWithAI (fst (scheduleLabsConcurrently ?g1 labPool y AiMode))
                      lectures y ?rooms))
              l1 y ?rooms)) l2 l3"
          using assms Some lec lab
          by (auto simp: generateSlotsWithAI_def Let_def case_prod_unfold)
        then show ?thesis using accepts_trans [OF accepts_passes recs] by auto
      qed
    qed
  qed
qed

lemma accepts_fallback_passes:
  "accepts g0 (validateCriticalConstraints (reportUnscheduled
     (fst (fillRemainingLectureSlots
        (fst (scheduleLecturesFallback (fst (scheduleLabsConcurrently g0 labPool y FallbackMode))
                lectures y rooms))
        l1 y rooms)) l2 l3))"
  by (intro accepts_trans [OF accepts_validateCriticalConstraints]
        accepts_trans [OF accepts_reportUnscheduled]
        accepts_trans [OF accepts_fillRemainingLectureSlots]
        accepts_trans [OF accepts_scheduleLecturesFallback]
        accepts_scheduleLabsConcurrently)

lemma createEmptyResult_slots [simp]: "r_slots (createEmptyResult h g) = []"
  by (simp add: createEmptyResult_def)

lemma fallbackGeneration_slots:
  "r_slots (fallbackGeneration h g y sem) = [] \<or>
   (\<exists>g'. accepts g g' \<and> r_slots (fallbackGeneration h g y sem) = generatedSlots g')"
proof -
  let ?rel = "filter (\<lambda>s. sub_year s = y \<and> sub_semester s = sem) (subjects g)"
  let ?rooms = "filter (\<lambda>c. assignedYear c = y) (classrooms g)"
  show ?thesis
  proof (cases "length ?rel = 0 \<or> length ?rooms = 0")
    case True
    then show ?thesis unfolding fallbackGeneration_def Let_def by (simp del: length_0_conv)
  next
    case ne: False
    show ?thesis
    proof (cases "createLecturePool ?rel")
      case (Inl e1)
      then show ?thesis using ne
        by (simp add: fallbackGeneration_def Let_def fallback_failed_def del: length_0_conv)
    next
      case lec: (Inr lectures)
      show ?thesis
      proof (cases "createLabPool ?rel")
        case (Inl e1)
        then show ?thesis using ne lec
          by (simp add: fallbackGeneration_def Let_def fallback_failed_def del: length_0_conv)
      next
        case lab: (Inr labPool)
        have "\<exists>l1 l2 l3. r_slots (fallbackGeneration h g y sem) = generatedSlots
          (validateCriticalConstraints (reportUnscheduled
           (fst (fillRemainingLectureSlots
              (fst (scheduleLecturesFallback (fst (scheduleLabsConcurrently g labPool y FallbackMode))
                      lectures y ?rooms))
              l1 y ?rooms)) l2 l3))"
          using ne lec lab
          by (auto simp: fallbackGeneration_def Let_def case_prod_unfold simp del: length_0_conv)
        then show ?thesis using accepts_fallback_passes by blast
      qed
    qed
  qed
qed

text \<open>Every slot list that \<open>generateTimetable\<close> returns is empty or is the slot list of a
  generator reached by accepted pushes from a generator without slots.\<close>

lemma generateTimetable_slots:
  "r_slots (generateTimetable h advisor g0 y sem) = [] \<or>
   (\<exists>g g'. generatedSlots g = [] \<and> subjects g = subjects g0 \<and> accepts g g' \<and>
      r_slots (generateTimetable h advisor g0 y sem) = generatedSlots g')"
proof -
  let ?g = "g0 \<lparr> generatedSlots := [], conflicts := [] \<rparr>"
  show ?thesis
  proof (cases advisor)
    case (Inl e)
    then have "generateTimetable h advisor g0 y sem = fallbackGeneration h ?g y sem"
      by (simp add: generateTimetable_def Let_def)
    then have eq: "generateTimetable h advisor g0 y sem = fallbackGeneration h ?g y sem" .
    from fallbackGeneration_slots [of h ?g y sem] show ?thesis
    proof
      assume "r_slots (fallbackGeneration h ?g y sem) = []"
      then show ?thesis using eq by simp
    next
      assume "\<exists>g'. accepts ?g g' \<and> r_slots (fallbackGeneration h ?g y sem) = generatedSlots g'"
      then obtain g' where "accepts ?g g'"
        "r_slots (fallbackGeneration h ?g y sem) = generatedSlots g'" by blast
      then show ?thesis using eq by (intro disjI2 exI [of _ ?g] exI [of _ g']) simp
    qed
  next
    case (Inr ar)
    let ?ga = "?g \<lparr> analysisResult := Some ar \<rparr>"
    show ?thesis
    proof (cases "generateSlotsWithAI ?ga y sem")
      case (Inl p)
      obtain e g' where p: "p = (e, g')" by (cases p)
      have a: "accepts ?ga g'" using accepts_generateSlotsWithAI [of ?ga y sem g' e] Inl p by simp
      have "generateTimetable h advisor g0 y sem = fallbackGeneration h g' y sem"
        using Inr Inl p by (simp add: generateTimetable_def Let_def)
      then have eq: "generateTimetable h advisor g0 y sem = fallbackGeneration h g' y sem" .
      from fallbackGeneration_slots [of h g' y sem] show ?thesis
      proof
        assume "r_slots (fallbackGeneration h g' y sem) = []"
        then show ?thesis using eq by simp
      next
        assume "\<exists>g''. accepts g' g'' \<and>
                  r_slots (fallbackGeneration h g' y sem) = generatedSlots g''"
        then obtain g'' where g'': "accepts g' g''"
          "r_slots (fallbackGeneration h g' y sem) = generatedSlots g''" by blast
        have "accepts ?ga g''" by (rule accepts_trans [OF g''(1) a])
        then show ?thesis using eq g''(2) by (intro disjI2 exI [of _ ?ga] exI [of _ g'']) simp
      qed
    next
      case inr: (Inr g1)
      have a: "accepts ?ga g1" using accepts_generateSlotsWithAI [of ?ga y sem g1] inr by simp
      have "r_slots (generateTimetable h advisor g0 y sem) = generatedSlots (validateAndOptimize g1)"
        using Inr inr by (simp add: generateTimetable_def Let_def)
      moreover have "accepts ?ga (validateAndOptimize g1)"
        by (rule accepts_trans [OF accepts_validateAndOptimize a])
      ultimately show ?thesis
        by (intro disjI2 exI [of _ ?ga] exI [of _ "validateAndOptimize g1"]) simp
    qed
  qed
qed

lemma accepts_prefix: "accepts g g' \<Longrightarrow> prefix (generatedSlots g) (generatedSlots g')"
  by (induction rule: accepts.induct) (auto simp: push_slot_def intro: prefix_order.trans)

lemma accepts_fixed:
  "accepts g g' \<Longrightarrow> classrooms g' = classrooms g \<and> labs g' = labs g \<and>
     facultyList g' = facultyList g \<and> gen_constraints g' = gen_constraints g \<and>
     analysisResult g' = analysisResult g"
  by (induction rule: accepts.induct) (simp_all add: push_slot_def)

lemma weeklyTheoryCount_prefix:
  "prefix xs ys \<Longrightarrow> weeklyTheoryCount xs subj y \<le> weeklyTheoryCount ys subj y"
  by (auto simp: prefix_def weeklyTheoryCount_def)

text \<open>When no pool builder throws, the first path returns normally, and its generator is
  reached by accepted pushes from the generator left by the advisory placements.\<close>

lemma generateSlotsWithAI_returns:
  assumes "analysisResult g = Some ar"
      and "createLecturePool (filter (\<lambda>s. sub_year s = y \<and> sub_semester s = sem) (subjects g)) = Inr lectures"
      and "createLabPool (filter (\<lambda>s. sub_year s = y \<and> sub_semester s = sem) (subjects g)) = Inr labPool"
  shows "\<exists>g'. generateSlotsWithAI g y sem = Inr g' \<and>
           accepts (foldl (apply_recommendation
                      (filter (\<lambda>s. sub_year s = y \<and> sub_semester s = sem) (subjects g)) y sem)
                    g (recommendedSlots ar)) g'"
proof -
  let ?rel = "filter (\<lambda>s. sub_year s = y \<and> sub_semester s = sem) (subjects g)"
  let ?rooms = "filter (\<lambda>c. assignedYear c = y) (classrooms g)"
  let ?g1 = "foldl (apply_recommendation ?rel y sem) g (recommendedSlots ar)"
  have "\<exists>l1 l2 l3. generateSlotsWithAI g y sem = Inr (reportUnscheduled
           (fst (fillRemainingLectureSlots
              (fst (scheduleLecturesWithAI (fst (scheduleLabsConcurrently ?g1 labPool y AiMode))
                      lectures y ?rooms))
              l1 y ?rooms)) l2 l3)"
    using assms by (auto simp: generateSlotsWithAI_def Let_def case_prod_unfold)
  then obtain l1 l2 l3 where eq: "generateSlotsWithAI g y sem = Inr (reportUnscheduled
           (fst (fillRemainingLectureSlots
              (fst (scheduleLecturesWithAI (fst (scheduleLabsConcurrently ?g1 labPool y AiMode))
                      lectures y ?rooms))
              l1 y ?rooms)) l2 l3)" by blast
  show ?thesis unfolding eq using accepts_passes [of ?g1 labPool y lectures ?rooms l1 l2 l3]
    by simp
qed

subsection \<open>Conflict freedom and the weekly cap in the generator with validation\<close>

lemma conflict_free_nth:
  "conflict_free xs \<Longrightarrow> i < j \<Longrightarrow> j < length xs \<Longrightarrow> \<not> basic_conflict (xs ! i) (xs ! j)"
proof (induction xs arbitrary: i j)
  case Nil
  then show ?case by simp
next
  case (Cons x xs)
  obtain j' where j: "j = Suc j'" using Cons.prems(2) by (cases j) auto
  show ?case
  proof (cases i)
    case 0
    then show ?thesis using Cons.prems j by (auto simp: list_all_iff)
  next
    case (Suc i')
    then show ?thesis using Cons.prems j Cons.IH [of i' j'] by simp
  qed
qed

lemma double_booked_basic: "double_booked a b \<Longrightarrow> basic_conflict a b"
  by (auto simp: double_booked_def basic_conflict_def)

text \<open>The generator \<open>AITimetableGenerator\<close> never returns a double-booked slot list, on
  either of its paths.\<close>

lemma generateTimetable_conflict_free:
  assumes "i < j" "j < length (r_slots (generateTimetable h advisor g0 y sem))"
  shows "\<not> double_booked (r_slots (generateTimetable h advisor g0 y sem) ! i)
                          (r_slots (generateTimetable h advisor g0 y sem) ! j)"
proof -
  let ?slots = "r_slots (generateTimetable h advisor g0 y sem)"
  have "conflict_free ?slots"
    using generateTimetable_slots [of h advisor g0 y sem]
  proof
    assume "?slots = []"
    then show ?thesis by simp
  next
    assume "\<exists>g g'. generatedSlots g = [] \<and> subjects g = subjects g0 \<and> accepts g g' \<and>
                   ?slots = generatedSlots g'"
    then obtain g g' where "generatedSlots g = []" "accepts g g'" "?slots = generatedSlots g'"
      by blast
    then show ?thesis using accepts_conflict_free [of g g'] by simp
  qed
  then show ?thesis using conflict_free_nth [OF _ assms] double_booked_basic by blast
qed

text \<open>At every point of a construction that starts without slots, and in every returned
  slot list, the number of lectures of a subject name and year is at most the cap that
  \<open>validateSlot\<close> applies, which is the declared \<open>theoryHours\<close> when that is positive.\<close>

lemma construction_theory_capped:
  assumes "generatedSlots g = []" "accepts g g'"
  shows "int (weeklyTheoryCount (generatedSlots g') subj yr) \<le> max 0 (theory_cap (subjects g) subj yr)"
proof -
  have "theory_capped g" using assms(1) by (simp add: theory_capped_def weeklyTheoryCount_def)
  then have "theory_capped g'" using assms(2) by (rule accepts_theory_capped [rotated])
  then show ?thesis using accepts_subjects [OF assms(2)] by (simp add: theory_capped_def)
qed

lemma generateTimetable_theory_cap:
  assumes "find (\<lambda>s. sub_name s = subj \<and> sub_year s = yr) (subjects g0) = Some sd"
      and "0 < theoryHours sd"
  shows "int (weeklyTheoryCount (r_slots (generateTimetable h advisor g0 y sem)) subj yr)
           \<le> theoryHours sd"
proof -
  let ?slots = "r_slots (generateTimetable h advisor g0 y sem)"
  have cap: "theory_cap (subjects g0) subj yr = theoryHours sd"
    using assms by (simp add: theory_cap_def)
  from generateTimetable_slots [of h advisor g0 y sem] show ?thesis
  proof
    assume "?slots = []"
    then show ?thesis using assms(2) by (simp add: weeklyTheoryCount_def)
  next
    assume "\<exists>g g'. generatedSlots g = [] \<and> subjects g = subjects g0 \<and> accepts g g' \<and>
                   ?slots = generatedSlots g'"
    then obtain g g' where g: "generatedSlots g = []" "subjects g = subjects g0" "accepts g g'"
      "?slots = generatedSlots g'" by blast
    show ?thesis using construction_theory_capped [OF g(1,3), of subj yr] g(2,4) cap assms(2)
      by simp
  qed
qed


subsection \<open>Double booking\<close>

text \<open>The lecture pass and the report of the plain generator keep the slots that the lab
  pass has pushed, at the front of the list.\<close>

lemma tg_lecture_cell_prefix:
  "prefix (generatedSlots (fst st)) (generatedSlots (fst (tg_lecture_cell st cell)))"
  by (cases st; cases cell)
     (auto simp: tg_lecture_cell_def Let_def push_slot_def split: option.splits)

lemma scheduleLectures_prefix:
  "prefix (generatedSlots g) (generatedSlots (fst (scheduleLectures g pool)))"
proof -
  have "prefix (generatedSlots (fst st)) (generatedSlots (fst (foldl tg_lecture_cell st cells)))"
    for st cells
  proof (induction cells arbitrary: st)
    case Nil
    show ?case by simp
  next
    case (Cons c cs)
    show ?case
      using prefix_order.trans [OF tg_lecture_cell_prefix [of st c] Cons [of "tg_lecture_cell st c"]]
      by simp
  qed
  from this [of "(g, pool)"] show ?thesis by (simp add: scheduleLectures_def)
qed

lemma push_conflict_slots [simp]: "generatedSlots (push_conflict g c) = generatedSlots g"
  by (simp add: push_conflict_def)

lemma foldl_push_conflict_slots [simp]:
  "generatedSlots (foldl (\<lambda>g x. push_conflict g (f x)) g xs) = generatedSlots g"
  by (induction xs arbitrary: g) simp_all

lemma tg_reportUnscheduled_slots [simp]:
  "generatedSlots (tg_reportUnscheduled g lectures labPool) = generatedSlots g"
  by (simp add: tg_reportUnscheduled_def Let_def)

text \<open>
  Claim C1. No returned slot list has two slots with the same faculty, room or (year,
  batch) at overlapping times of one day. \<open>AITimetableGenerator\<close> keeps this on both of its
  paths (\<open>generateTimetable_conflict_free\<close>). The plain generator \<open>TimetableGenerator\<close> does
  not: for one subject of 2 lab hours taught by Smith, a classroom and two lab rooms, its
  first sweep puts the batches A and B of that lab into the two rooms at the same time,
  both with Smith, and these are the first two slots of the list it returns.
\<close>

theorem plain_generator_double_books_faculty:
  "\<exists>ss cs. tg_generateTimetable two_lab_generator = Inr (ss, cs) \<and>
     map (\<lambda>s. (s_day s, s_time s, s_subject s, s_faculty s, s_room s, s_batch s)) (take 2 ss)
       = [(''Monday'', ''1:15-3:15'', ''DS Lab'', ''Smith'', ''L1'', Some BatchA),
          (''Monday'', ''1:15-3:15'', ''DS Lab'', ''Smith'', ''L2'', Some BatchB)] \<and>
     double_booked (ss ! 0) (ss ! 1)"
proof -
  define g where "g = two_lab_generator \<lparr> generatedSlots := [], conflicts := [] \<rparr>"
  define lectures where
    "lectures = replicate 3 \<lparr> d_ref = 0, d_subject = sample_subject ''DS'' 3 2 ''Smith'',
                               d_year = SE, d_batch = None \<rparr>"
  define labPool where
    "labPool = map (\<lambda>p. \<lparr> d_ref = fst p, d_subject = sample_subject ''DS'' 3 2 ''Smith'',
                             d_year = SE, d_batch = Some (snd p) \<rparr>)
                 [(0, BatchA), (1, BatchB), (2, BatchC)]"
  define a where "a = tg_lab_slot (labPool ! 0) ''Monday'' ''1:15-3:15'' ''L1''"
  define b where "b = tg_lab_slot (labPool ! 1) ''Monday'' ''1:15-3:15'' ''L2''"
  have l: "createLecturePool (subjects g) = Inr lectures"
    unfolding g_def lectures_def by code_simp
  have p: "createLabPool (subjects g) = Inr labPool"
    unfolding g_def labPool_def by code_simp
  obtain g1 labs1 where s: "scheduleLabs g labPool = (g1, labs1)"
    by (cases "scheduleLabs g labPool")
  obtain g2 lectures2 where t: "scheduleLectures g1 lectures = (g2, lectures2)"
    by (cases "scheduleLectures g1 lectures")
  have r: "tg_generateTimetable two_lab_generator
           = Inr (generatedSlots g2, conflicts (tg_reportUnscheduled g2 lectures2 labs1))"
    unfolding tg_generateTimetable_def Let_def g_def [symmetric] by (simp add: l p s t)
  have "take 2 (generatedSlots (fst (scheduleLabs g labPool))) = [a, b]"
    unfolding g_def labPool_def a_def b_def by code_simp
  then have e: "take 2 (generatedSlots g1) = [a, b]" using s by simp
  have "prefix (generatedSlots g1) (generatedSlots g2)"
    using scheduleLectures_prefix [of g1 lectures] t by simp
  then obtain zs where z: "generatedSlots g2 = generatedSlots g1 @ zs" by (auto simp: prefix_def)
  have "length (take 2 (generatedSlots g1)) = 2" using e by simp
  then have "take 2 (generatedSlots g2) = take 2 (generatedSlots g1)" using z by simp
  then have two: "take 2 (generatedSlots g2) = [a, b]" using e by simp
  have n0: "generatedSlots g2 ! 0 = a"
    using nth_take [of 0 2 "generatedSlots g2"] two by simp
  have n1: "generatedSlots g2 ! 1 = b"
    using nth_take [of 1 2 "generatedSlots g2"] two by simp
  have m: "map (\<lambda>s. (s_day s, s_time s, s_subject s, s_faculty s, s_room s, s_batch s)) [a, b]
       = [(''Monday'', ''1:15-3:15'', ''DS Lab'', ''Smith'', ''L1'', Some BatchA),
          (''Monday'', ''1:15-3:15'', ''DS Lab'', ''Smith'', ''L2'', Some BatchB)]"
    unfolding a_def b_def labPool_def by code_simp
  have d: "double_booked a b" unfolding a_def b_def labPool_def by code_simp
  show ?thesis using r m d two n0 n1 by auto
qed

subsection \<open>The weekly lecture cap\<close>

text \<open>
  Claim C10. For a theory candidate whose subject name has no catalog entry for its year,
  or whose entry declares \<open>theoryHours = 0\<close>, the cap of \<open>validateSlot\<close> is 3: the candidate is
  rejected as soon as 3 theory slots of that subject and year exist, and below that it is
  accepted when the double-booking and adjacency checks pass.
\<close>

theorem validateSlot_default_cap:
  assumes "s_type sl = Theory"
      and "find (\<lambda>s. sub_name s = s_subject sl \<and> sub_year s = s_year sl) (subjects g) = None \<or>
           (\<exists>sd. find (\<lambda>s. sub_name s = s_subject sl \<and> sub_year s = s_year sl) (subjects g) = Some sd
                 \<and> theoryHours sd = 0)"
  shows "maxAllowed g sl = 3
       \<and> (3 \<le> weeklyTheoryCount (generatedSlots g) (s_subject sl) (s_year sl)
            \<longrightarrow> \<not> validateSlot g sl)
       \<and> (weeklyTheoryCount (generatedSlots g) (s_subject sl) (s_year sl) < 3 \<and>
          \<not> list_ex (\<lambda>existing. basic_conflict existing sl) (generatedSlots g) \<and>
          \<not> hasConsecutiveSession g sl \<longrightarrow> validateSlot g sl)"
proof -
  have m: "maxAllowed g sl = 3" using assms(2) by (auto simp: maxAllowed_def)
  show ?thesis using assms(1) by (auto simp: m validateSlot_def)
qed

theorem validateSlot_default_cap_witness:
  "validateSlot lab_only_generator
     (sample_slot ''x'' ''Monday'' ''8:10-9:10'' ''PBL'' ''Patel'' ''E404'' Theory None)"
proof -
  let ?sl = "sample_slot ''x'' ''Monday'' ''8:10-9:10'' ''PBL'' ''Patel'' ''E404'' Theory None"
  have t: "s_type ?sl = Theory" by (simp add: sample_slot_def)
  have f: "find (\<lambda>s. sub_name s = s_subject ?sl \<and> sub_year s = s_year ?sl)
             (subjects lab_only_generator) = None \<or>
           (\<exists>sd. find (\<lambda>s. sub_name s = s_subject ?sl \<and> sub_year s = s_year ?sl)
                   (subjects lab_only_generator) = Some sd \<and> theoryHours sd = 0)"
    by (simp add: lab_only_generator_def new_generator_def sample_subject_def sample_slot_def)
  have c: "weeklyTheoryCount (generatedSlots lab_only_generator) (s_subject ?sl) (s_year ?sl) < 3"
    by (simp add: lab_only_generator_def new_generator_def weeklyTheoryCount_def)
  have b: "\<not> list_ex (\<lambda>existing. basic_conflict existing ?sl) (generatedSlots lab_only_generator)"
    by (simp add: lab_only_generator_def new_generator_def)
  have h: "\<not> hasConsecutiveSession lab_only_generator ?sl" by code_simp
  show ?thesis using validateSlot_default_cap [OF t f] c b h by blast
qed

text \<open>
  Claim C2. The count of accepted theory slots of a subject never exceeds its declared
  \<open>theoryHours = H\<close>. For a positive \<open>H\<close> the code keeps this at every point
  (\<open>construction_theory_capped\<close>, \<open>generateTimetable_theory_cap\<close>). For \<open>H = 0\<close> it does not:
  the lab-only subject PBL declares no theory hours, the advisor recommends a lecture of
  it, \<open>validateSlot\<close> accepts that lecture, and the returned slot list has it.
\<close>

theorem lab_only_subject_gets_lecture:
  "theoryHours (sample_subject ''PBL'' 0 2 ''Patel'') = 0 \<and>
   subjects lab_only_generator = [sample_subject ''PBL'' 0 2 ''Patel''] \<and>
   1 \<le> weeklyTheoryCount
          (r_slots (generateTimetable (sample_host 1) (Inr lecture_advice) lab_only_generator SE 3))
          ''PBL'' SE"
proof -
  let ?g = "lab_only_generator \<lparr> generatedSlots := [], conflicts := [],
                                  analysisResult := Some lecture_advice \<rparr>"
  let ?rel = "filter (\<lambda>s. sub_year s = SE \<and> sub_semester s = 3) (subjects ?g)"
  let ?g1 = "foldl (apply_recommendation ?rel SE 3) ?g (recommendedSlots lecture_advice)"
  have l: "createLecturePool ?rel = Inr []" by code_simp
  have rel: "?rel = [sample_subject ''PBL'' 0 2 ''Patel'']" by code_simp
  have "\<exists>p. createLabPool ?rel = Inr p"
    unfolding rel by (simp add: createLabPool_def lab_units_def Array_n_def ceil_half_def
        sample_subject_def split: sum.splits)
  then obtain p where p: "createLabPool ?rel = Inr p" ..
  have a: "analysisResult ?g = Some lecture_advice" by simp
  from generateSlotsWithAI_returns [OF a l p]
  obtain g' where g': "generateSlotsWithAI ?g SE 3 = Inr g'" "accepts ?g1 g'" by blast
  have r: "r_slots (generateTimetable (sample_host 1) (Inr lecture_advice) lab_only_generator SE 3)
           = generatedSlots (validateAndOptimize g')"
    using g'(1) by (simp add: generateTimetable_def Let_def)
  have "accepts ?g1 (validateAndOptimize g')"
    by (rule accepts_trans [OF accepts_validateAndOptimize g'(2)])
  then have "weeklyTheoryCount (generatedSlots ?g1) ''PBL'' SE
             \<le> weeklyTheoryCount (generatedSlots (validateAndOptimize g')) ''PBL'' SE"
    by (intro weeklyTheoryCount_prefix accepts_prefix)
  moreover have "weeklyTheoryCount (generatedSlots ?g1) ''PBL'' SE = 1" by code_simp
  moreover have "theoryHours (sample_subject ''PBL'' 0 2 ''Patel'') = 0"
    by (simp add: sample_subject_def)
  moreover have "subjects lab_only_generator = [sample_subject ''PBL'' 0 2 ''Patel'']"
    by (simp add: lab_only_generator_def new_generator_def)
  ultimately show ?thesis unfolding r by simp
qed

subsection \<open>No classrooms\<close>

lemma fallback_no_classrooms:
  assumes "filter (\<lambda>c. assignedYear c = y) (classrooms g) = []"
  shows "r_slots (fallbackGeneration h g y sem) = [] \<and>
         \<lparr> c_type = Error, c_message = MsgNoClassrooms y, c_severity = High,
           affectedEntities = [] \<rparr> \<in> set (r_conflicts (fallbackGeneration h g y sem))"
  using assms
  by (simp add: fallbackGeneration_def Let_def createEmptyResult_def push_conflict_def)

text \<open>
  Claim C7, amended. With no classroom for the target year, a run that takes the fallback
  path (the advisory call throws, or the first path throws) returns an empty slot list and
  an error conflict of high severity that names the missing classrooms.
\<close>

theorem no_classrooms_on_fallback_path:
  assumes none: "filter (\<lambda>c. assignedYear c = y) (classrooms g0) = []"
      and path: "(\<exists>e. advisor = Inl e) \<or>
                 (\<exists>ar e g'. advisor = Inr ar \<and>
                    generateSlotsWithAI (g0 \<lparr> generatedSlots := [], conflicts := [],
                                              analysisResult := Some ar \<rparr>) y sem = Inl (e, g'))"
  shows "r_slots (generateTimetable h advisor g0 y sem) = [] \<and>
         \<lparr> c_type = Error, c_message = MsgNoClassrooms y, c_severity = High,
           affectedEntities = [] \<rparr> \<in> set (r_conflicts (generateTimetable h advisor g0 y sem))"
  using path
proof (elim disjE exE conjE)
  fix e assume "advisor = Inl e"
  then have "generateTimetable h advisor g0 y sem
             = fallbackGeneration h (g0 \<lparr> generatedSlots := [], conflicts := [] \<rparr>) y sem"
    by (simp add: generateTimetable_def Let_def)
  then show ?thesis
    using fallback_no_classrooms [of y "g0 \<lparr> generatedSlots := [], conflicts := [] \<rparr>" h sem] none
    by simp
next
  fix ar e g'
  let ?ga = "g0 \<lparr> generatedSlots := [], conflicts := [], analysisResult := Some ar \<rparr>"
  assume adv: "advisor = Inr ar" and thrown: "generateSlotsWithAI ?ga y sem = Inl (e, g')"
  have "accepts ?ga g'" using accepts_generateSlotsWithAI [of ?ga y sem g' e] thrown by simp
  then have "classrooms g' = classrooms g0" using accepts_fixed [of ?ga g'] by simp
  moreover have "generateTimetable h advisor g0 y sem = fallbackGeneration h g' y sem"
    using adv thrown by (simp add: generateTimetable_def Let_def)
  ultimately show ?thesis using fallback_no_classrooms [of y g' h sem] none by simp
qed

theorem no_classrooms_on_fallback_path_witness:
  "filter (\<lambda>c. assignedYear c = SE) (classrooms no_classroom_generator) = [] \<and>
   r_slots (generateTimetable (sample_host 1) (Inl AdvisorError) no_classroom_generator SE 3) = [] \<and>
   \<lparr> c_type = Error, c_message = MsgNoClassrooms SE, c_severity = High, affectedEntities = [] \<rparr>
     \<in> set (r_conflicts
              (generateTimetable (sample_host 1) (Inl AdvisorError) no_classroom_generator SE 3))"
proof -
  have n: "filter (\<lambda>c. assignedYear c = SE) (classrooms no_classroom_generator) = []"
    by (simp add: no_classroom_generator_def new_generator_def)
  show ?thesis
    using no_classrooms_on_fallback_path [OF n, of "Inl AdvisorError" 3 "sample_host 1"] n
    by simp
qed

text \<open>
  Claim C7, as stated, fails on the first path: with an advisory answer and no classroom
  for the target year, \<open>generateTimetable\<close> returns three lab slots and no conflict that
  names the missing classrooms.
\<close>

theorem no_classrooms_first_path_counterexample:
  "(let r = generateTimetable (sample_host 1) (Inr plain_advice) no_classroom_generator SE 3
    in (filter (\<lambda>c. assignedYear c = SE) (classrooms no_classroom_generator),
        map (\<lambda>s. (s_day s, s_time s, s_subject s, s_room s, s_batch s)) (r_slots r),
        list_ex (\<lambda>c. c_message c = MsgNoClassrooms SE) (r_conflicts r)))
   = ([],
      [(''Monday'', ''8:10-10:10'', ''DS Lab'', ''L1'', Some BatchA),
       (''Monday'', ''1:05-2:55'', ''DS Lab'', ''L1'', Some BatchB),
       (''Tuesday'', ''8:10-10:10'', ''DS Lab'', ''L1'', Some BatchC)],
      False)"
  by code_simp

subsection \<open>The consistency hash\<close>

lemma calculateGenerationStats_host:
  assumes "localeCompare h1 = localeCompare h2" "sha256_json h1 = sha256_json h2"
  shows "calculateGenerationStats h1 g y sem = calculateGenerationStats h2 g y sem"
  using assms by (simp add: calculateGenerationStats_def)

lemma pools_return:
  assumes "\<forall>s\<in>set ss. array_hours s"
  shows "\<exists>lectures labPool. createLecturePool ss = Inr lectures \<and> createLabPool ss = Inr labPool"
proof -
  obtain lectures where "createLecturePool ss = Inr lectures"
    unfolding createLecturePool_def using lecture_flatMap [of ss 0] assms by auto
  moreover obtain ds where "flatMap_err lab_units ss = Inr ds"
    using lab_flatMap [of ss] assms by auto
  ultimately show ?thesis by (simp add: createLabPool_def)
qed

lemma fallbackGeneration_host:
  assumes "localeCompare h1 = localeCompare h2" "sha256_json h1 = sha256_json h2"
      and "\<forall>s\<in>set (subjects g). array_hours s"
      and "filter (\<lambda>s. sub_year s = y \<and> sub_semester s = sem) (subjects g) \<noteq> []"
      and "filter (\<lambda>c. assignedYear c = y) (classrooms g) \<noteq> []"
  shows "fallbackGeneration h1 g y sem = fallbackGeneration h2 g y sem"
proof -
  let ?rel = "filter (\<lambda>s. sub_year s = y \<and> sub_semester s = sem) (subjects g)"
  have "\<forall>s\<in>set ?rel. array_hours s" using assms(3) by simp
  then obtain lectures labPool where
    "createLecturePool ?rel = Inr lectures" "createLabPool ?rel = Inr labPool"
    using pools_return by blast
  then show ?thesis using assms(4,5)
    by (simp add: fallbackGeneration_def Let_def case_prod_unfold
        calculateGenerationStats_host [OF assms(1,2)])
qed

text \<open>
  Claim C8, amended. Two runs on hosts with the same collation and the same digest, with
  the same generator, the same advisory outcome and the same target, return the same
  consistency hash whatever their clocks read, provided the hours of all subjects give
  array lengths (\<open>theoryHours\<close> and \<open>ceil(labHours / 2)\<close> from \<open>0\<close> to \<open>2^32 - 1\<close>) and a run
  without advisory answer has a subject and a classroom for its target.
\<close>

theorem consistencyHash_independent_of_clock:
  assumes env: "localeCompare h1 = localeCompare h2" "sha256_json h1 = sha256_json h2"
      and hours: "\<forall>s\<in>set (subjects g0). array_hours s"
      and ne: "(\<exists>e. advisor = Inl e) \<longrightarrow>
                 filter (\<lambda>s. sub_year s = y \<and> sub_semester s = sem) (subjects g0) \<noteq> [] \<and>
                 filter (\<lambda>c. assignedYear c = y) (classrooms g0) \<noteq> []"
  shows "consistencyHash (generationStats (generateTimetable h1 advisor g0 y sem))
         = consistencyHash (generationStats (generateTimetable h2 advisor g0 y sem))"
proof (cases advisor)
  case (Inl e)
  let ?g = "g0 \<lparr> generatedSlots := [], conflicts := [] \<rparr>"
  have "fallbackGeneration h1 ?g y sem = fallbackGeneration h2 ?g y sem"
    using fallbackGeneration_host [OF env, of ?g y sem] hours ne Inl by simp
  then show ?thesis using Inl by (simp add: generateTimetable_def Let_def)
next
  case (Inr ar)
  let ?ga = "g0 \<lparr> generatedSlots := [], conflicts := [], analysisResult := Some ar \<rparr>"
  let ?rel = "filter (\<lambda>s. sub_year s = y \<and> sub_semester s = sem) (subjects ?ga)"
  have "\<forall>s\<in>set ?rel. array_hours s" using hours by simp
  then obtain lectures labPool where
    p: "createLecturePool ?rel = Inr lectures" "createLabPool ?rel = Inr labPool"
    using pools_return by blast
  have a: "analysisResult ?ga = Some ar" by simp
  from generateSlotsWithAI_returns [OF a p]
  obtain g' where "generateSlotsWithAI ?ga y sem = Inr g'" by blast
  then show ?thesis using Inr
    by (simp add: generateTimetable_def Let_def calculateGenerationStats_host [OF env])
qed

theorem consistencyHash_independent_of_clock_witness:
  "consistencyHash (generationStats
      (generateTimetable (sample_host 1) (Inr plain_advice) no_classroom_generator SE 3))
   = consistencyHash (generationStats
      (generateTimetable (sample_host 2) (Inr plain_advice) no_classroom_generator SE 3))"
proof -
  have env: "localeCompare (sample_host 1) = localeCompare (sample_host 2)"
    "sha256_json (sample_host 1) = sha256_json (sample_host 2)"
    by (simp_all add: sample_host_def)
  have hours: "\<forall>s\<in>set (subjects no_classroom_generator). array_hours s"
    by (simp add: no_classroom_generator_def new_generator_def sample_subject_def
        array_hours_def)
  show ?thesis
    by (rule consistencyHash_independent_of_clock [OF env hours]) simp
qed

text \<open>
  Claim C8, as stated, fails: with no classroom for the target year and an advisory call
  that throws in both runs, the hash is \<open>error-\<close> followed by the reading of the clock, so
  two runs at different times differ.
\<close>

theorem consistencyHash_clock_counterexample:
  "consistencyHash (generationStats
      (generateTimetable (sample_host 1) (Inl AdvisorError) no_classroom_generator SE 3))
   \<noteq> consistencyHash (generationStats
      (generateTimetable (sample_host 2) (Inl AdvisorError) no_classroom_generator SE 3))"
proof -
  have e: "consistencyHash (generationStats
      (generateTimetable (sample_host n) (Inl AdvisorError) no_classroom_generator SE 3))
      = ''error-'' @ show_nat n" for n
    by (simp add: generateTimetable_def fallbackGeneration_def Let_def createEmptyResult_def
        no_classroom_generator_def new_generator_def sample_host_def)
  have "show_nat 1 = ''1''" "show_nat 2 = ''2''" by code_simp+
  then show ?thesis unfolding e by simp
qed

end
